theory Spec2Isabelle
  imports Main "HOL-Library.Word"
begin

section \<open>The authentication middleware of herald-webservice\<close>

text \<open>
  A shallow embedding of \<^verbatim>\<open>src/middleware/auth.js\<close>: the symmetric
  \<^verbatim>\<open>encrypt\<close>/\<^verbatim>\<open>decrypt\<close> wrappers, the digest \<^verbatim>\<open>hash\<close>, the
  upstream wrapper \<^verbatim>\<open>auth\<close> and the exported middleware with its three paths
  (login on \<^verbatim>\<open>/auth\<close>, token passthrough, anonymous).

  Asynchronous calls run in sequence inside one request, so every \<^verbatim>\<open>await\<close> is an
  ordinary call here. A JavaScript \<^verbatim>\<open>throw\<close> is the left injection of a sum.
\<close>

subsection \<open>Exceptions\<close>

text \<open>
  The values the module throws: the numbers 401 and 405 (\<open>Status\<close>), the message about
  the missing \<^verbatim>\<open>platform\<close> parameter, and whatever a library or a provider throws
  (\<open>Failure\<close>). The test \<^verbatim>\<open>e === 401\<close> is \<open>e = Status 401\<close>.
\<close>

datatype exn = Status nat | MissingPlatform | Failure string

definition try_catch :: "exn + 'a \<Rightarrow> (exn \<Rightarrow> exn + 'a) \<Rightarrow> exn + 'a" where
  "try_catch body handler = (case body of Inl e \<Rightarrow> handler e | Inr v \<Rightarrow> Inr v)"

subsection \<open>The record store\<close>

record auth_record =
  cardnum :: string
  tokenHash :: string
  tokenEncrypted :: string
  passwordEncrypted :: string
  passwordHash :: string
  gpasswordEncrypted :: string
  name :: string
  schoolnum :: string
  platform :: string
  registered :: int
  lastInvoked :: int

text \<open>
  The two filters the middleware uses, \<^verbatim>\<open>{ cardnum, platform }\<close> and
  \<^verbatim>\<open>{ tokenHash }\<close>, and the two patches it writes.
\<close>

datatype criteria = ByCardnumPlatform string string | ByTokenHash string

datatype patch =
    LastInvokedPatch int
  | SecretsPatch string string string string

fun matches :: "criteria \<Rightarrow> auth_record \<Rightarrow> bool" where
  "matches (ByCardnumPlatform c p) r = (cardnum r = c \<and> platform r = p)"
| "matches (ByTokenHash h) r = (tokenHash r = h)"

fun apply_patch :: "patch \<Rightarrow> auth_record \<Rightarrow> auth_record" where
  "apply_patch (LastInvokedPatch now) r = r\<lparr>lastInvoked := now\<rparr>"
| "apply_patch (SecretsPatch pe ge te ph) r =
     r\<lparr>passwordEncrypted := pe, gpasswordEncrypted := ge, tokenEncrypted := te,
       passwordHash := ph\<rparr>"

text \<open>
  Modelled from the spec: \<^verbatim>\<open>db.auth.find(filter, 1)\<close> of the module
  \<^verbatim>\<open>../database/auth\<close>, which is not among the sources. The filter is a
  partial-field equality match; with limit 1 the first matching record is returned, or
  null (\<open>None\<close>) when there is none.
\<close>

definition db_auth_find :: "criteria \<Rightarrow> auth_record list \<Rightarrow> auth_record option" where
  "db_auth_find crit table = find (matches crit) table"

text \<open>
  Modelled from the spec: \<^verbatim>\<open>db.auth.insert(record)\<close> of \<^verbatim>\<open>../database/auth\<close>, a
  whole-record write; the table gains the record.
\<close>

definition db_auth_insert :: "auth_record \<Rightarrow> auth_record list \<Rightarrow> auth_record list" where
  "db_auth_insert r table = table @ [r]"

text \<open>
  Modelled from the spec: \<^verbatim>\<open>db.auth.update(filter, patch)\<close> of
  \<^verbatim>\<open>../database/auth\<close>, a partial-field write to the records the equality filter
  selects.
\<close>

definition db_auth_update :: "criteria \<Rightarrow> patch \<Rightarrow> auth_record list \<Rightarrow> auth_record list" where
  "db_auth_update crit p table = map (\<lambda>r. if matches crit r then apply_patch p r else r) table"

text \<open>
  Modelled from the spec: \<^verbatim>\<open>db.auth.remove(filter)\<close> of \<^verbatim>\<open>../database/auth\<close>; the
  records the equality filter selects are deleted.
\<close>

definition db_auth_remove :: "criteria \<Rightarrow> auth_record list \<Rightarrow> auth_record list" where
  "db_auth_remove crit table = filter (\<lambda>r. \<not> matches crit r) table"

subsection \<open>The environment of a request\<close>

text \<open>
  What the module reaches outside its own file is a parameter of the model:
  \<^item> Node's \<^verbatim>\<open>crypto\<close> with the cipher named by \<^verbatim>\<open>config.auth.cipher\<close>: creating
    a cipher or decipher object for a key, feeding it (\<^verbatim>\<open>update\<close>, which returns
    output and leaves the object in a new state) and closing it (\<^verbatim>\<open>final\<close>); each
    call may throw. \<open>'c\<close> is the type of the cipher objects.
  \<^item> \<open>md5_base64\<close>: the MD5 digest of a string, rendered in base64.
  \<^item> \<open>entropy\<close>: the bytes \<^verbatim>\<open>crypto.randomBytes\<close> draws in this request.
  \<^item> the two providers \<^verbatim>\<open>./auth-provider/myold\<close> and
    \<^verbatim>\<open>./auth-provider/graduate\<close>, which return or throw.
  \<^item> \<open>getTime\<close>: the value of \<^verbatim>\<open>new Date().getTime()\<close>.
  \<^item> \<open>db_update\<close>: the member \<^verbatim>\<open>update\<close> of the database module itself, which line
    139 calls as \<^verbatim>\<open>db.update(...)\<close>. It is not one of the four operations of
    \<^verbatim>\<open>db.auth\<close>, and nothing in the sources says what it does, so it may return any
    table or throw.
\<close>

record profile =
  profile_name :: string
  profile_schoolnum :: string

record 'c env =
  createCipher :: "string \<Rightarrow> exn + 'c"
  cipher_update :: "'c \<Rightarrow> string \<Rightarrow> exn + string \<times> 'c"
  cipher_final :: "'c \<Rightarrow> exn + string"
  createDecipher :: "string \<Rightarrow> exn + 'c"
  decipher_update :: "'c \<Rightarrow> string \<Rightarrow> exn + string \<times> 'c"
  decipher_final :: "'c \<Rightarrow> exn + string"
  md5_base64 :: "string \<Rightarrow> string"
  entropy :: "nat \<Rightarrow> 8 word"
  authProvider :: "string \<Rightarrow> string \<Rightarrow> exn + profile"
  graduateAuthProvider :: "string \<Rightarrow> string \<Rightarrow> exn + unit"
  getTime :: int
  db_update :: "criteria \<Rightarrow> patch \<Rightarrow> auth_record list \<Rightarrow> exn + auth_record list"

subsection \<open>Crypto primitives\<close>

text \<open>
  The body of the \<^verbatim>\<open>try\<close> block of \<^verbatim>\<open>encrypt\<close>: create the cipher, feed it the
  value, append the final block.
\<close>

definition encrypt_try :: "'c env \<Rightarrow> string \<Rightarrow> string \<Rightarrow> exn + string" where
  "encrypt_try env key val =
     (case createCipher env key of
        Inl e \<Rightarrow> Inl e
      | Inr cipher \<Rightarrow>
          (case cipher_update env cipher val of
             Inl e \<Rightarrow> Inl e
           | Inr (result, cipher') \<Rightarrow>
               (case cipher_final env cipher' of
                  Inl e \<Rightarrow> Inl e
                | Inr fin \<Rightarrow> Inr (result @ fin))))"

definition decrypt_try :: "'c env \<Rightarrow> string \<Rightarrow> string \<Rightarrow> exn + string" where
  "decrypt_try env key val =
     (case createDecipher env key of
        Inl e \<Rightarrow> Inl e
      | Inr decipher \<Rightarrow>
          (case decipher_update env decipher val of
             Inl e \<Rightarrow> Inl e
           | Inr (result, decipher') \<Rightarrow>
               (case decipher_final env decipher' of
                  Inl e \<Rightarrow> Inl e
                | Inr fin \<Rightarrow> Inr (result @ fin))))"

text \<open>The two functions as JavaScript calls: \<^verbatim>\<open>catch (e) { return '' }\<close>.\<close>

definition encrypt_js :: "'c env \<Rightarrow> string \<Rightarrow> string \<Rightarrow> exn + string" where
  "encrypt_js env key val = try_catch (encrypt_try env key val) (\<lambda>e. Inr '''')"

definition decrypt_js :: "'c env \<Rightarrow> string \<Rightarrow> string \<Rightarrow> exn + string" where
  "decrypt_js env key val = try_catch (decrypt_try env key val) (\<lambda>e. Inr '''')"

text \<open>The string a call evaluates to, as the middleware uses it.\<close>

definition encrypt :: "'c env \<Rightarrow> string \<Rightarrow> string \<Rightarrow> string" where
  "encrypt env key val = (case encrypt_try env key val of Inl e \<Rightarrow> '''' | Inr r \<Rightarrow> r)"

definition decrypt :: "'c env \<Rightarrow> string \<Rightarrow> string \<Rightarrow> string" where
  "decrypt env key val = (case decrypt_try env key val of Inl e \<Rightarrow> '''' | Inr r \<Rightarrow> r)"

definition hash :: "'c env \<Rightarrow> string \<Rightarrow> string" where
  "hash env val = md5_base64 env val"

text \<open>
  \<^verbatim>\<open>new Buffer(crypto.randomBytes(20)).toString('hex')\<close>: two lower-case hexadecimal
  digits for each byte.
\<close>

definition randomBytes :: "'c env \<Rightarrow> nat \<Rightarrow> 8 word list" where
  "randomBytes env n = map (entropy env) [0..<n]"

definition hex_digit :: "nat \<Rightarrow> char" where
  "hex_digit d = ''0123456789abcdef'' ! (d mod 16)"

definition toString_hex :: "8 word list \<Rightarrow> string" where
  "toString_hex bytes = concat (map (\<lambda>b. [hex_digit (unat b div 16), hex_digit (unat b mod 16)]) bytes)"

subsection \<open>The two tests on the card number\<close>

definition is_digit :: "char \<Rightarrow> bool" where
  "is_digit c = (c \<in> set ''0123456789'')"

text \<open>
  \<^verbatim>\<open>/^22\d*(\d{6})$/.test(cardnum)\<close>, with the captured group \<^verbatim>\<open>RegExp.$1\<close>: the
  string starts with 22, everything after it is a digit, and at least six digits follow
  the prefix; the greedy \<^verbatim>\<open>\d*\<close> leaves the last six to the group.
\<close>

definition graduate_pattern :: "string \<Rightarrow> string option" where
  "graduate_pattern c =
     (if take 2 c = ''22'' \<and> list_all is_digit (drop 2 c) \<and> 8 \<le> length c
      then Some (drop (length c - 6) c) else None)"

text \<open>\<^verbatim>\<open>/^22/.test(cardnum)\<close>.\<close>

definition prefix22 :: "string \<Rightarrow> bool" where
  "prefix22 c = (take 2 c = ''22'')"

subsection \<open>State\<close>

text \<open>
  What a request can change: the table \<^verbatim>\<open>db.auth\<close>, and the log of the calls made to
  the upstream providers (kept so that "the provider is not contacted" can be stated).
\<close>

datatype upstream_call = GraduateCall string string | PrimaryCall string string

record state =
  auth_table :: "auth_record list"
  upstream_calls :: "upstream_call list"

definition invoke :: "upstream_call \<Rightarrow> state \<Rightarrow> state" where
  "invoke c st = st\<lparr>upstream_calls := upstream_calls st @ [c]\<rparr>"

subsection \<open>The identity context\<close>

text \<open>
  \<^verbatim>\<open>ctx.user\<close> of a request with a recognised token (lines 219-225). The closures
  \<^verbatim>\<open>encrypt.bind(undefined, token)\<close> and \<^verbatim>\<open>decrypt.bind(undefined, token)\<close> are kept
  as the key they are bound to, \<open>u_key\<close>; the field \<^verbatim>\<open>token\<close> holds the hash.
\<close>

record user =
  u_key :: string
  u_token :: string
  u_identity :: string
  u_cardnum :: string
  u_password :: string
  u_gpassword :: string
  u_name :: string
  u_schoolnum :: string
  u_platform :: string

datatype user_ctx = Authenticated user | Anonymous

datatype field =
    IsLogin | Encrypt | Decrypt | Token | Identity | Cardnum | Password | Gpassword
  | Name | Schoolnum | Platform

datatype jsval = JUndefined | JBool bool | JString string | JFunction "string \<Rightarrow> string"

text \<open>
  Reading \<^verbatim>\<open>ctx.user.<field>\<close>. The anonymous object (lines 235-246) has the data
  property \<^verbatim>\<open>isLogin\<close> and a getter that calls \<^verbatim>\<open>reject\<close> for nine names; it has
  no property \<^verbatim>\<open>token\<close>, which therefore reads as \<^verbatim>\<open>undefined\<close>.
\<close>

fun get_field :: "'c env \<Rightarrow> user_ctx \<Rightarrow> field \<Rightarrow> exn + jsval" where
  "get_field env Anonymous IsLogin = Inr (JBool False)"
| "get_field env Anonymous Token = Inr JUndefined"
| "get_field env Anonymous f = Inl (Status 401)"
| "get_field env (Authenticated u) IsLogin = Inr (JBool True)"
| "get_field env (Authenticated u) Encrypt = Inr (JFunction (encrypt env (u_key u)))"
| "get_field env (Authenticated u) Decrypt = Inr (JFunction (decrypt env (u_key u)))"
| "get_field env (Authenticated u) Token = Inr (JString (u_token u))"
| "get_field env (Authenticated u) Identity = Inr (JString (u_identity u))"
| "get_field env (Authenticated u) Cardnum = Inr (JString (u_cardnum u))"
| "get_field env (Authenticated u) Password = Inr (JString (u_password u))"
| "get_field env (Authenticated u) Gpassword = Inr (JString (u_gpassword u))"
| "get_field env (Authenticated u) Name = Inr (JString (u_name u))"
| "get_field env (Authenticated u) Schoolnum = Inr (JString (u_schoolnum u))"
| "get_field env (Authenticated u) Platform = Inr (JString (u_platform u))"

subsection \<open>The upstream wrapper\<close>

text \<open>The \<^verbatim>\<open>try\<close> block of \<^verbatim>\<open>auth\<close> (lines 79-82).\<close>

definition auth_try ::
  "'c env \<Rightarrow> string \<Rightarrow> string \<Rightarrow> string \<Rightarrow> state \<Rightarrow> (exn + profile) \<times> state" where
  "auth_try env c password gpassword st =
     (case graduate_pattern c of
        Some sub \<Rightarrow>
          (case graduateAuthProvider env sub gpassword of
             Inl e \<Rightarrow> (Inl e, invoke (GraduateCall sub gpassword) st)
           | Inr u \<Rightarrow>
               (authProvider env c password,
                invoke (PrimaryCall c password) (invoke (GraduateCall sub gpassword) st)))
      | None \<Rightarrow> (authProvider env c password, invoke (PrimaryCall c password) st))"

text \<open>
  \<^verbatim>\<open>auth\<close> (lines 77-92). \<open>cu\<close> is \<^verbatim>\<open>ctx.user\<close> as the handler finds it:
  \<open>None\<close> when the property is not set. On 401 with \<^verbatim>\<open>ctx.user && ctx.user.isLogin\<close>
  the record whose \<^verbatim>\<open>tokenHash\<close> is \<^verbatim>\<open>ctx.user.token\<close> is removed; the exception is
  thrown again in every case.
\<close>

definition auth ::
  "'c env \<Rightarrow> user_ctx option \<Rightarrow> string \<Rightarrow> string \<Rightarrow> string \<Rightarrow> state
     \<Rightarrow> (exn + profile) \<times> state" where
  "auth env cu c password gpassword st =
     (case auth_try env c password gpassword st of
        (Inr r, st') \<Rightarrow> (Inr r, st')
      | (Inl e, st') \<Rightarrow>
          (Inl e,
           if e = Status 401 then
             (case cu of
                Some (Authenticated u) \<Rightarrow>
                  st'\<lparr>auth_table := db_auth_remove (ByTokenHash (u_token u)) (auth_table st')\<rparr>
              | _ \<Rightarrow> st')
           else st'))"

text \<open>
  \<^verbatim>\<open>ctx.useAuthCookie\<close>: \<^verbatim>\<open>reject\<close> for the anonymous context (line 248), and
  \<^verbatim>\<open>auth.bind(undefined, ctx, cardnum, password, gpassword)\<close> for an authenticated one
  (line 216), called while \<^verbatim>\<open>ctx.user\<close> is that context.
\<close>

definition useAuthCookie :: "'c env \<Rightarrow> user_ctx \<Rightarrow> state \<Rightarrow> (exn + profile) \<times> state" where
  "useAuthCookie env uc st =
     (case uc of
        Anonymous \<Rightarrow> (Inl (Status 401), st)
      | Authenticated u \<Rightarrow> auth env (Some uc) (u_cardnum u) (u_password u) (u_gpassword u) st)"

subsection \<open>The request\<close>

text \<open>
  The parts of the Koa context the middleware reads. The parameters \<^verbatim>\<open>cardnum\<close> and
  \<^verbatim>\<open>password\<close> are strings; \<^verbatim>\<open>gpassword\<close>, \<^verbatim>\<open>platform\<close> and the header
  \<^verbatim>\<open>token\<close> may be absent (\<open>None\<close>), which the code tests for.
\<close>

record ctx =
  path :: string
  http_method :: string
  p_cardnum :: string
  p_password :: string
  p_gpassword :: "string option"
  p_platform :: "string option"
  header_token :: "string option"
  ctx_user :: "user_ctx option"

text \<open>\<^verbatim>\<open>String.prototype.toUpperCase\<close> on the letters an HTTP method is written in.\<close>

definition upper_char :: "char \<Rightarrow> char" where
  "upper_char c =
     (if c \<in> set ''abcdefghijklmnopqrstuvwxyz'' then char_of (of_char c - (32::nat)) else c)"

definition toUpperCase :: "string \<Rightarrow> string" where
  "toUpperCase s = map upper_char s"

text \<open>\<^verbatim>\<open>gpassword || password\<close>: an absent or empty \<^verbatim>\<open>gpassword\<close> is the password.\<close>

definition or_default :: "string option \<Rightarrow> string \<Rightarrow> string" where
  "or_default g password =
     (case g of None \<Rightarrow> password | Some s \<Rightarrow> if s = '''' then password else s)"

text \<open>
  How the middleware ends: it sets the response body (login), or it sets \<^verbatim>\<open>ctx.user\<close>
  and calls the downstream middleware \<^verbatim>\<open>next()\<close>. The model returns at that call
  with the identity context handed over.
\<close>

datatype outcome = Body string | Next user_ctx

subsection \<open>The middleware\<close>

text \<open>
  Lines 158-188: authenticate upstream, mint a token of 20 random bytes in hexadecimal,
  encrypt token and password with each other, insert the record, answer with the token.
\<close>

definition first_login ::
  "'c env \<Rightarrow> ctx \<Rightarrow> string \<Rightarrow> string \<Rightarrow> state \<Rightarrow> (exn + outcome) \<times> state" where
  "first_login env cx gpassword pf st =
     (case auth env (ctx_user cx) (p_cardnum cx) (p_password cx) gpassword st of
        (Inl e, st') \<Rightarrow> (Inl e, st')
      | (Inr prof, st') \<Rightarrow>
          (let token = toString_hex (randomBytes env 20);
               now = getTime env
           in (Inr (Body token),
               st'\<lparr>auth_table :=
                 db_auth_insert
                   \<lparr>cardnum = p_cardnum cx,
                    tokenHash = hash env token,
                    tokenEncrypted = encrypt env (p_password cx) token,
                    passwordEncrypted = encrypt env token (p_password cx),
                    passwordHash = hash env (p_password cx),
                    gpasswordEncrypted =
                      (if prefix22 (p_cardnum cx) then encrypt env token gpassword else ''''),
                    name = profile_name prof,
                    schoolnum = profile_schoolnum prof,
                    platform = pf,
                    registered = now,
                    lastInvoked = now\<rparr>
                   (auth_table st')\<rparr>)))"

text \<open>
  Lines 130-144: the presented password decrypted the stored token but a hash or the
  secondary password differs. After \<^verbatim>\<open>auth\<close> returns, the four secret fields are
  computed again and handed to \<^verbatim>\<open>db.update\<close>.
\<close>

definition refresh ::
  "'c env \<Rightarrow> ctx \<Rightarrow> string \<Rightarrow> string \<Rightarrow> string \<Rightarrow> state \<Rightarrow> (exn + outcome) \<times> state" where
  "refresh env cx gpassword pf token st =
     (case auth env (ctx_user cx) (p_cardnum cx) (p_password cx) gpassword st of
        (Inl e, st') \<Rightarrow> (Inl e, st')
      | (Inr prof, st') \<Rightarrow>
          (case db_update env (ByCardnumPlatform (p_cardnum cx) pf)
                  (SecretsPatch
                     (encrypt env token (p_password cx))
                     (if prefix22 (p_cardnum cx) then encrypt env token gpassword else '''')
                     (encrypt env (p_password cx) token)
                     (hash env (p_password cx)))
                  (auth_table st') of
             Inl e \<Rightarrow> (Inl e, st')
           | Inr table' \<Rightarrow> (Inr (Body token), st'\<lparr>auth_table := table'\<rparr>)))"

text \<open>Lines 98-188: the branch for \<^verbatim>\<open>ctx.path === '/auth'\<close>.\<close>

definition login :: "'c env \<Rightarrow> ctx \<Rightarrow> state \<Rightarrow> (exn + outcome) \<times> state" where
  "login env cx st =
     (if toUpperCase (http_method cx) \<noteq> ''POST'' then (Inl (Status 405), st)
      else
        (let gpassword = or_default (p_gpassword cx) (p_password cx) in
         case p_platform cx of
           None \<Rightarrow> (Inl MissingPlatform, st)
         | Some pf \<Rightarrow>
             if pf = '''' then (Inl MissingPlatform, st)
             else
               (case db_auth_find (ByCardnumPlatform (p_cardnum cx) pf) (auth_table st) of
                  None \<Rightarrow> first_login env cx gpassword pf st
                | Some existing \<Rightarrow>
                    (let token = decrypt env (p_password cx) (tokenEncrypted existing) in
                     if token \<noteq> '''' then
                       (if passwordHash existing \<noteq> hash env (p_password cx)
                           \<or> prefix22 (p_cardnum cx)
                             \<and> gpassword \<noteq> decrypt env token (gpasswordEncrypted existing)
                        then refresh env cx gpassword pf token st
                        else (Inr (Body token), st))
                     else first_login env cx gpassword pf st))))"

text \<open>Lines 234-251: the anonymous context is set and \<^verbatim>\<open>next()\<close> is called.\<close>

definition anonymous :: "state \<Rightarrow> (exn + outcome) \<times> state" where
  "anonymous st = (Inr (Next Anonymous), st)"

text \<open>Lines 196-229: the record of the token was found.\<close>

definition passthrough ::
  "'c env \<Rightarrow> string \<Rightarrow> auth_record \<Rightarrow> state \<Rightarrow> (exn + outcome) \<times> state" where
  "passthrough env token record st =
     (let now = getTime env;
          st' = st\<lparr>auth_table :=
                  db_auth_update (ByTokenHash (hash env token)) (LastInvokedPatch now)
                    (auth_table st)\<rparr>;
          password = decrypt env token (passwordEncrypted record);
          gpassword =
            (if prefix22 (cardnum record) then decrypt env token (gpasswordEncrypted record)
             else '''')
      in (Inr (Next (Authenticated
            \<lparr>u_key = token,
             u_token = hash env token,
             u_identity = hash env (cardnum record @ name record),
             u_cardnum = cardnum record,
             u_password = password,
             u_gpassword = gpassword,
             u_name = name record,
             u_schoolnum = schoolnum record,
             u_platform = platform record\<rparr>)), st'))"

text \<open>The exported function (lines 95-252).\<close>

definition middleware :: "'c env \<Rightarrow> ctx \<Rightarrow> state \<Rightarrow> (exn + outcome) \<times> state" where
  "middleware env cx st =
     (if path cx = ''/auth'' then login env cx st
      else
        (case header_token cx of
           None \<Rightarrow> anonymous st
         | Some token \<Rightarrow>
             if token = '''' then anonymous st
             else
               (case db_auth_find (ByTokenHash (hash env token)) (auth_table st) of
                  None \<Rightarrow> anonymous st
                | Some record \<Rightarrow> passthrough env token record st)))"

subsection \<open>Assumptions on the cipher\<close>

text \<open>
  Modelled from the spec: the cipher behind \<^verbatim>\<open>crypto.createCipher\<close> and
  \<^verbatim>\<open>crypto.createDecipher\<close>, which is neither in the module nor among the sources.
  The spec calls \<^verbatim>\<open>encrypt\<close> a symmetric encryption of a string under a string key
  and \<^verbatim>\<open>decrypt\<close> its inverse operation: for every key and value the cipher runs
  through, and the decipher for the same key, fed the cipher's whole output, runs through
  and gives the value back.
\<close>

definition cipher_inverts :: "'c env \<Rightarrow> bool" where
  "cipher_inverts env =
     (\<forall>key val. \<exists>c r c' f d s d' g.
        createCipher env key = Inr c \<and> cipher_update env c val = Inr (r, c') \<and>
        cipher_final env c' = Inr f \<and>
        createDecipher env key = Inr d \<and> decipher_update env d (r @ f) = Inr (s, d') \<and>
        decipher_final env d' = Inr g \<and> s @ g = val)"

text \<open>
  Modelled from the spec: \<^verbatim>\<open>decrypt\<close> gives the empty string on a malformed
  ciphertext; the empty ciphertext is one.
\<close>

definition empty_undecipherable :: "'c env \<Rightarrow> bool" where
  "empty_undecipherable env = (\<forall>key. decrypt env key '''' = '''')"

subsection \<open>An environment to run the model in\<close>

text \<open>
  A stand-in for the parameters, used to evaluate the model on concrete requests. Its
  cipher appends a mark and the key to the value; its decipher collects the input and,
  when closed, gives back what stands before the mark and the key, and throws when the
  input does not end in them. The primary provider accepts the password \<open>p1\<close>, the
  graduate provider the password \<open>g1\<close>. The behaviour of \<^verbatim>\<open>db.update\<close> is the
  argument \<open>upd\<close>.
\<close>

definition demo_decipher_final :: "string \<times> string \<Rightarrow> exn + string" where
  "demo_decipher_final d =
     (let key = fst d; buf = snd d; n = length buf - (length key + 1) in
      if length key + 1 \<le> length buf \<and> drop n buf = CHR ''#'' # key then Inr (take n buf)
      else Inl (Failure ''bad decrypt''))"

definition demo_env ::
  "(criteria \<Rightarrow> patch \<Rightarrow> auth_record list \<Rightarrow> exn + auth_record list) \<Rightarrow> (string \<times> string) env" where
  "demo_env upd =
     \<lparr>createCipher = (\<lambda>key. Inr (key, '''')),
      cipher_update = (\<lambda>c v. Inr (v, c)),
      cipher_final = (\<lambda>c. Inr (CHR ''#'' # fst c)),
      createDecipher = (\<lambda>key. Inr (key, '''')),
      decipher_update = (\<lambda>d v. Inr ('''', (fst d, snd d @ v))),
      decipher_final = demo_decipher_final,
      md5_base64 = (\<lambda>v. ''md5:'' @ v),
      entropy = (\<lambda>i. of_nat i),
      authProvider = (\<lambda>c p. if p = ''p1''
                        then Inr \<lparr>profile_name = ''Li'', profile_schoolnum = ''S1''\<rparr>
                        else Inl (Status 401)),
      graduateAuthProvider = (\<lambda>sub g. if g = ''g1'' then Inr () else Inl (Status 401)),
      getTime = 1000,
      db_update = upd\<rparr>"

text \<open>\<^verbatim>\<open>db.update\<close> when the database module has no such function.\<close>

definition not_a_function ::
  "criteria \<Rightarrow> patch \<Rightarrow> auth_record list \<Rightarrow> exn + auth_record list" where
  "not_a_function crit p table = Inl (Failure ''TypeError: db.update is not a function'')"

definition demo_token :: string where
  "demo_token = ''000102030405060708090a0b0c0d0e0f10111213''"

text \<open>A login request and a request that carries a token.\<close>

definition login_request :: "string \<Rightarrow> string \<Rightarrow> string option \<Rightarrow> ctx" where
  "login_request c p g =
     \<lparr>path = ''/auth'', http_method = ''POST'', p_cardnum = c, p_password = p, p_gpassword = g,
      p_platform = Some ''app'', header_token = None, ctx_user = None\<rparr>"

definition token_request :: "string option \<Rightarrow> ctx" where
  "token_request t =
     \<lparr>path = ''/api/card'', http_method = ''GET'', p_cardnum = '''', p_password = '''',
      p_gpassword = None, p_platform = None, header_token = t, ctx_user = None\<rparr>"

definition empty_state :: state where
  "empty_state = \<lparr>auth_table = [], upstream_calls = []\<rparr>"

text \<open>
  The record the stand-in environment stores for the first login of card number
  \<open>22012345\<close> on platform \<open>app\<close> with password \<open>p1\<close> and secondary password
  \<open>g1\<close>, and a state that holds it.
\<close>

definition demo_record :: auth_record where
  "demo_record =
     \<lparr>cardnum = ''22012345'',
      tokenHash = ''md5:'' @ demo_token,
      tokenEncrypted = demo_token @ ''#p1'',
      passwordEncrypted = ''p1#'' @ demo_token,
      passwordHash = ''md5:p1'',
      gpasswordEncrypted = ''g1#'' @ demo_token,
      name = ''Li'', schoolnum = ''S1'', platform = ''app'',
      registered = 1000, lastInvoked = 1000\<rparr>"

definition demo_state :: state where
  "demo_state = \<lparr>auth_table = [demo_record], upstream_calls = []\<rparr>"

text \<open>
  The same record when the secondary password stored with it is an older one, \<open>g0\<close>.
\<close>

definition stale_record :: auth_record where
  "stale_record = demo_record\<lparr>gpasswordEncrypted := ''g0#'' @ demo_token\<rparr>"

definition stale_state :: state where
  "stale_state = \<lparr>auth_table = [stale_record], upstream_calls = []\<rparr>"

text \<open>
  A record for the card number \<open>2201\<close>, which starts with 22 and is shorter than the
  eight characters the pattern of the upstream wrapper asks for.
\<close>

definition short_record :: auth_record where
  "short_record = demo_record\<lparr>cardnum := ''2201''\<rparr>"

definition short_state :: state where
  "short_state = \<lparr>auth_table = [short_record], upstream_calls = []\<rparr>"

text \<open>
  The identity context the middleware builds for the token of \<open>stale_record\<close>.
\<close>

definition stale_user :: user where
  "stale_user =
     \<lparr>u_key = demo_token, u_token = ''md5:'' @ demo_token, u_identity = ''md5:22012345Li'',
      u_cardnum = ''22012345'', u_password = ''p1'', u_gpassword = ''g0'', u_name = ''Li'',
      u_schoolnum = ''S1'', u_platform = ''app''\<rparr>"

text \<open>
  A second stand-in cipher, one without padding or integrity check, as a stream mode is:
  it moves every character up by the length of the key, the decipher moves it down by
  the length of its key, and neither ever throws, whatever the key and the input.
\<close>

definition shift :: "nat \<Rightarrow> string \<Rightarrow> string" where
  "shift n s = map (\<lambda>ch. char_of (of_char ch + n)) s"

definition shift_env :: "(string \<times> string) env" where
  "shift_env =
     (demo_env not_a_function)
       \<lparr>cipher_update := (\<lambda>c v. Inr (shift (length (fst c)) v, c)),
        cipher_final := (\<lambda>c. Inr ''''),
        decipher_update := (\<lambda>d v. Inr (shift (256 - length (fst d) mod 256) v, d)),
        decipher_final := (\<lambda>d. Inr '''')\<rparr>"

section \<open>Properties\<close>

subsection \<open>Facts about the stand-in environment\<close>

lemma upt_20: "[0..<20] = [0, 1, 2, 3, 4, 5, 6, 7, 8, 9, 10, 11, 12, 13, 14, 15, 16, 17, 18, 19]"
  by code_simp

lemma demo_token_minted: "toString_hex (randomBytes (demo_env upd) 20) = demo_token"
  by (simp add: toString_hex_def randomBytes_def demo_env_def demo_token_def hex_digit_def upt_20)

lemma demo_inverts: "cipher_inverts (demo_env upd)"
  by (simp add: cipher_inverts_def demo_env_def demo_decipher_final_def)

lemma demo_empty_undecipherable: "empty_undecipherable (demo_env upd)"
  by (simp add: empty_undecipherable_def decrypt_def decrypt_try_def demo_env_def
      demo_decipher_final_def)

lemma demo_encrypt: "encrypt (demo_env upd) key val = val @ CHR ''#'' # key"
  by (simp add: encrypt_def encrypt_try_def demo_env_def)

lemma demo_decrypt:
  "decrypt (demo_env upd) key val =
     (if length key + 1 \<le> length val \<and> drop (length val - (length key + 1)) val = CHR ''#'' # key
      then take (length val - (length key + 1)) val else '''')"
  by (simp add: decrypt_def decrypt_try_def demo_env_def demo_decipher_final_def Let_def)

subsection \<open>The crypto wrappers\<close>

lemma token_length: "length (toString_hex (randomBytes env n)) = 2 * n"
  by (simp add: toString_hex_def randomBytes_def length_concat comp_def sum_list_triv)

lemma decrypt_encrypt:
  assumes "cipher_inverts env"
  shows "decrypt env key (encrypt env key val) = val"
proof -
  from assms obtain c r c' f d s d' g where
    enc: "createCipher env key = Inr c" "cipher_update env c val = Inr (r, c')"
         "cipher_final env c' = Inr f"
    and dec: "createDecipher env key = Inr d" "decipher_update env d (r @ f) = Inr (s, d')"
         "decipher_final env d' = Inr g"
    and res: "s @ g = val"
    unfolding cipher_inverts_def by blast
  from enc have "encrypt env key val = r @ f"
    by (simp add: encrypt_def encrypt_try_def)
  with dec res show ?thesis
    by (simp add: decrypt_def decrypt_try_def)
qed

text \<open>
  C6. \<^verbatim>\<open>decrypt(key, encrypt(key, value)) == value\<close> for every key and value, in
  particular for a password and a token in both roles. The cipher itself is Node's, under
  the algorithm the configuration names; the statement is for every cipher whose decipher
  undoes its cipher, and what is verified is that the two wrappers (the three library
  calls each, the concatenation of the outputs of \<^verbatim>\<open>update\<close> and \<^verbatim>\<open>final\<close>, the
  \<^verbatim>\<open>catch\<close>) hand the value through.
\<close>

theorem encrypt_decrypt_roundtrip:
  assumes "cipher_inverts env"
  shows "decrypt env key (encrypt env key val) = val
       \<and> decrypt env password (encrypt env password token) = token
       \<and> decrypt env token (encrypt env token password) = password"
  using assms by (simp add: decrypt_encrypt)

theorem encrypt_decrypt_roundtrip_witness:
  "cipher_inverts (demo_env not_a_function)
   \<and> encrypt (demo_env not_a_function) ''p1'' demo_token = demo_token @ ''#p1''
   \<and> decrypt (demo_env not_a_function) ''p1'' (demo_token @ ''#p1'') = demo_token
   \<and> decrypt (demo_env not_a_function) demo_token
        (encrypt (demo_env not_a_function) demo_token ''p1'') = ''p1''"
proof -
  have inv: "cipher_inverts (demo_env not_a_function)" by (rule demo_inverts)
  have enc: "encrypt (demo_env not_a_function) ''p1'' demo_token = demo_token @ ''#p1''"
    by (simp add: demo_encrypt)
  from encrypt_decrypt_roundtrip [OF inv, of "''p1''" demo_token demo_token "''p1''"] inv enc
  show ?thesis by simp
qed

lemma shift_mod: "((x + n) mod 256 + (256 - n mod 256)) mod 256 = x mod (256::nat)"
proof -
  define m where "m = n mod 256"
  have m: "m < 256" by (simp add: m_def)
  have a: "(x + n) mod 256 = (x + m) mod 256"
    unfolding m_def by (rule mod_add_right_eq [symmetric])
  have "((x + m) mod 256 + (256 - m)) mod 256 = (x + m + (256 - m)) mod 256"
    by (rule mod_add_left_eq)
  also have "x + m + (256 - m) = x + 256"
    using m by simp
  also have "(x + 256) mod 256 = x mod 256"
    by simp
  finally show ?thesis
    unfolding a m_def .
qed

lemma char_back:
  "char_of (of_char (char_of (of_char ch + n) :: char) + (256 - n mod 256 :: nat)) = (ch :: char)"
proof -
  have "(char_of (((of_char ch :: nat) + n) mod 256 + (256 - n mod 256)) :: char)
          = char_of ((of_char ch :: nat) mod 256)"
    by (simp only: char_of_eq_iff take_bit_eq_mod shift_mod mod_mod_trivial power_numeral
        Num.pow.simps Num.sqr.simps) simp
  then show ?thesis by (simp add: of_char_of)
qed

lemma shift_back: "shift (256 - n mod 256) (shift n s) = s"
  by (induction s) (simp_all only: shift_def list.map char_back)

lemma shift_inverts: "cipher_inverts shift_env"
  by (simp add: cipher_inverts_def shift_env_def demo_env_def shift_back)

text \<open>
  C7, as stated, fails where it names a wrong key and a garbage ciphertext as inputs on
  which \<^verbatim>\<open>decrypt\<close> gives the empty string. The wrapper gives the empty string when a
  library call throws, and checks nothing itself. Under the cipher without padding,
  which inverts, the ciphertext of \<open>tok\<close> under the key \<open>p1\<close> decrypts under the
  wrong key \<open>pw2\<close> to three characters of other text, and a ciphertext that was never
  produced by the cipher decrypts to text as well.
\<close>

theorem wrong_key_decrypts_to_text:
  "encrypt_js shift_env ''p1'' ''tok'' = Inr ''vqm''
   \<and> decrypt_js shift_env ''p1'' ''vqm'' = Inr ''tok''
   \<and> decrypt_js shift_env ''pw2'' ''vqm'' = Inr ''snj''
   \<and> decrypt_js shift_env ''p1'' ''zz'' = Inr ''xx''"
  by code_simp

text \<open>
  C7, amended. Neither \<^verbatim>\<open>decrypt\<close> nor \<^verbatim>\<open>encrypt\<close> throws: whatever the library
  does for a key and a value, the call returns a string. When one of the three library
  calls throws (creating the object, \<^verbatim>\<open>update\<close>, \<^verbatim>\<open>final\<close>) that string is empty;
  when none throws it is the output of \<^verbatim>\<open>update\<close> followed by that of \<^verbatim>\<open>final\<close>.
  Whether a wrong key or a malformed ciphertext makes a call throw is the cipher's
  matter.
\<close>

theorem crypto_never_raises:
  "(\<exists>s. decrypt_js env key val = Inr s) \<and> (\<exists>s. encrypt_js env key val = Inr s)
   \<and> decrypt_js env key val = Inr (decrypt env key val)
   \<and> encrypt_js env key val = Inr (encrypt env key val)
   \<and> ((\<exists>e. createDecipher env key = Inl e)
        \<or> (\<exists>d e. createDecipher env key = Inr d \<and> decipher_update env d val = Inl e)
        \<or> (\<exists>d r d' e. createDecipher env key = Inr d \<and> decipher_update env d val = Inr (r, d')
               \<and> decipher_final env d' = Inl e)
       \<longrightarrow> decrypt_js env key val = Inr '''')
   \<and> ((\<exists>e. createCipher env key = Inl e)
        \<or> (\<exists>c e. createCipher env key = Inr c \<and> cipher_update env c val = Inl e)
        \<or> (\<exists>c r c' e. createCipher env key = Inr c \<and> cipher_update env c val = Inr (r, c')
               \<and> cipher_final env c' = Inl e)
       \<longrightarrow> encrypt_js env key val = Inr '''')
   \<and> (\<forall>d r d' f. createDecipher env key = Inr d \<and> decipher_update env d val = Inr (r, d')
          \<and> decipher_final env d' = Inr f
          \<longrightarrow> decrypt_js env key val = Inr (r @ f))
   \<and> (\<forall>c r c' f. createCipher env key = Inr c \<and> cipher_update env c val = Inr (r, c')
          \<and> cipher_final env c' = Inr f
          \<longrightarrow> encrypt_js env key val = Inr (r @ f))"
  by (auto simp: decrypt_js_def encrypt_js_def try_catch_def decrypt_def encrypt_def
        decrypt_try_def encrypt_try_def split: sum.splits prod.splits)

theorem crypto_never_raises_witness:
  "decrypt_js ((demo_env not_a_function)\<lparr>createCipher := \<lambda>key. Inl (Failure ''Invalid cipher'')\<rparr>)
       ''key'' ''garbage'' = Inr ''''
   \<and> encrypt_js ((demo_env not_a_function)\<lparr>createCipher := \<lambda>key. Inl (Failure ''Invalid cipher'')\<rparr>)
       ''key'' ''garbage'' = Inr ''''
   \<and> decrypt_js shift_env ''pw2'' ''vqm'' = Inr ''snj''
   \<and> encrypt_js shift_env ''pw2'' ''vqm'' = Inr ''ytp''"
proof -
  let ?env = "(demo_env not_a_function)\<lparr>createCipher := \<lambda>key. Inl (Failure ''Invalid cipher'')\<rparr>"
  have d: "\<exists>d r d' e. createDecipher ?env ''key'' = Inr d
             \<and> decipher_update ?env d ''garbage'' = Inr (r, d') \<and> decipher_final ?env d' = Inl e"
    by (simp add: demo_env_def demo_decipher_final_def)
  have c: "\<exists>e. createCipher ?env ''key'' = Inl e"
    by simp
  from crypto_never_raises [of ?env "''key''" "''garbage''"] d c
  have thrown: "decrypt_js ?env ''key'' ''garbage'' = Inr ''''
                \<and> encrypt_js ?env ''key'' ''garbage'' = Inr ''''"
    by blast
  have dd: "createDecipher shift_env ''pw2'' = Inr (''pw2'', '''')
            \<and> decipher_update shift_env (''pw2'', '''') ''vqm'' = Inr (''snj'', (''pw2'', ''''))
            \<and> decipher_final shift_env (''pw2'', '''') = Inr ''''"
    by code_simp
  have cc: "createCipher shift_env ''pw2'' = Inr (''pw2'', '''')
            \<and> cipher_update shift_env (''pw2'', '''') ''vqm'' = Inr (''ytp'', (''pw2'', ''''))
            \<and> cipher_final shift_env (''pw2'', '''') = Inr ''''"
    by code_simp
  from crypto_never_raises [of shift_env "''pw2''" "''vqm''"] dd cc
  have returned: "decrypt_js shift_env ''pw2'' ''vqm'' = Inr (''snj'' @ '''')
                  \<and> encrypt_js shift_env ''pw2'' ''vqm'' = Inr (''ytp'' @ '''')"
    by blast
  from thrown returned show ?thesis by simp
qed

subsection \<open>The login path\<close>

lemma auth_try_table: "auth_table (snd (auth_try env c pw gp st)) = auth_table st"
  by (simp add: auth_try_def invoke_def split: option.splits sum.splits)

lemma auth_accepts_table:
  "auth env cu c pw gp st = (Inr prof, st') \<Longrightarrow> auth_table st' = auth_table st"
  using auth_try_table [of env c pw gp st]
  by (auto simp: auth_def split: prod.splits sum.splits)

text \<open>
  C3. A login for a (cardnum, platform) that has a record, with a password that decrypts
  the stored token to a non-empty string and whose hash is the stored one (and, for a
  card number starting with 22, a secondary password equal to the stored one decrypted
  under the token): the answer is that token, the state is the one before, and so no
  provider has been called. The token is the one the record was issued with whenever
  \<^verbatim>\<open>tokenEncrypted\<close> is its encryption under this password by an inverting cipher.
\<close>

theorem relogin_unchanged_password:
  assumes "path cx = ''/auth''" and "toUpperCase (http_method cx) = ''POST''"
    and "p_platform cx = Some pf" and "pf \<noteq> ''''"
    and "db_auth_find (ByCardnumPlatform (p_cardnum cx) pf) (auth_table st) = Some existing"
    and "token = decrypt env (p_password cx) (tokenEncrypted existing)" and "token \<noteq> ''''"
    and "hash env (p_password cx) = passwordHash existing"
    and "prefix22 (p_cardnum cx) \<longrightarrow>
           or_default (p_gpassword cx) (p_password cx) = decrypt env token (gpasswordEncrypted existing)"
  shows "middleware env cx st = (Inr (Body token), st)
       \<and> upstream_calls (snd (middleware env cx st)) = upstream_calls st
       \<and> (\<forall>t. cipher_inverts env \<and> tokenEncrypted existing = encrypt env (p_password cx) t
              \<longrightarrow> token = t)"
proof -
  have run: "middleware env cx st = (Inr (Body token), st)"
    using assms by (auto simp: middleware_def login_def Let_def)
  have issued: "token = t"
    if "cipher_inverts env" and "tokenEncrypted existing = encrypt env (p_password cx) t" for t
    using that assms(6) by (simp add: decrypt_encrypt)
  from run issued show ?thesis by simp
qed

theorem relogin_unchanged_password_witness:
  "middleware (demo_env not_a_function) (login_request ''22012345'' ''p1'' (Some ''g1'')) demo_state
     = (Inr (Body demo_token), demo_state)
   \<and> upstream_calls (snd (middleware (demo_env not_a_function)
        (login_request ''22012345'' ''p1'' (Some ''g1'')) demo_state)) = []"
proof -
  let ?env = "demo_env not_a_function"
  let ?cx = "login_request ''22012345'' ''p1'' (Some ''g1'')"
  have h1: "path ?cx = ''/auth''" by (simp add: login_request_def)
  have h2: "toUpperCase (http_method ?cx) = ''POST''"
    by (simp add: login_request_def toUpperCase_def upper_char_def)
  have h3: "p_platform ?cx = Some ''app''" by (simp add: login_request_def)
  have h4: "''app'' \<noteq> ''''" by simp
  have h5: "db_auth_find (ByCardnumPlatform (p_cardnum ?cx) ''app'') (auth_table demo_state)
              = Some demo_record"
    by (simp add: db_auth_find_def demo_state_def demo_record_def login_request_def)
  have h6: "demo_token = decrypt ?env (p_password ?cx) (tokenEncrypted demo_record)"
    by (simp add: demo_decrypt demo_record_def login_request_def demo_token_def)
  have h7: "demo_token \<noteq> ''''" by (simp add: demo_token_def)
  have h8: "hash ?env (p_password ?cx) = passwordHash demo_record"
    by (simp add: hash_def demo_env_def demo_record_def login_request_def)
  have h9: "prefix22 (p_cardnum ?cx) \<longrightarrow>
           or_default (p_gpassword ?cx) (p_password ?cx)
             = decrypt ?env demo_token (gpasswordEncrypted demo_record)"
    by (simp add: demo_decrypt demo_record_def login_request_def demo_token_def or_default_def)
  from relogin_unchanged_password [OF h1 h2 h3 h4 h5 h6 h7 h8 h9]
  show ?thesis by (simp add: demo_state_def)
qed

lemma login_request_ok:
  "path (login_request c p g) = ''/auth''"
  "toUpperCase (http_method (login_request c p g)) = ''POST''"
  "p_platform (login_request c p g) = Some ''app''"
  "p_cardnum (login_request c p g) = c"
  "p_password (login_request c p g) = p"
  "p_gpassword (login_request c p g) = g"
  "ctx_user (login_request c p g) = None"
  by (simp_all add: login_request_def toUpperCase_def upper_char_def)

text \<open>
  C4. A login for a (cardnum, platform) that has no record, which the upstream wrapper
  accepts: the table gains exactly one record, at its end; its \<^verbatim>\<open>registered\<close> and
  \<^verbatim>\<open>lastInvoked\<close> are both the current time, \<^verbatim>\<open>tokenHash\<close> and
  \<^verbatim>\<open>passwordHash\<close> are the hashes of the answered token and of the password, and the
  token is 40 hexadecimal digits. With an inverting cipher, the password decrypts
  \<^verbatim>\<open>tokenEncrypted\<close> to the token and the token decrypts \<^verbatim>\<open>passwordEncrypted\<close> to
  the password.
\<close>

theorem first_login_inserts_record:
  assumes "path cx = ''/auth''" and "toUpperCase (http_method cx) = ''POST''"
    and "p_platform cx = Some pf" and "pf \<noteq> ''''"
    and "db_auth_find (ByCardnumPlatform (p_cardnum cx) pf) (auth_table st) = None"
    and "auth env (ctx_user cx) (p_cardnum cx) (p_password cx)
           (or_default (p_gpassword cx) (p_password cx)) st = (Inr prof, st')"
    and "t = toString_hex (randomBytes env 20)"
  shows "\<exists>r. middleware env cx st = (Inr (Body t), st'\<lparr>auth_table := auth_table st @ [r]\<rparr>)
           \<and> cardnum r = p_cardnum cx \<and> platform r = pf
           \<and> registered r = getTime env \<and> lastInvoked r = getTime env
           \<and> registered r = lastInvoked r
           \<and> tokenHash r = hash env t \<and> passwordHash r = hash env (p_password cx)
           \<and> length t = 40
           \<and> (cipher_inverts env \<longrightarrow>
                 decrypt env (p_password cx) (tokenEncrypted r) = t
                 \<and> decrypt env t (passwordEncrypted r) = p_password cx)"
proof -
  let ?gp = "or_default (p_gpassword cx) (p_password cx)"
  let ?r = "\<lparr>cardnum = p_cardnum cx,
             tokenHash = hash env t,
             tokenEncrypted = encrypt env (p_password cx) t,
             passwordEncrypted = encrypt env t (p_password cx),
             passwordHash = hash env (p_password cx),
             gpasswordEncrypted = (if prefix22 (p_cardnum cx) then encrypt env t ?gp else ''''),
             name = profile_name prof,
             schoolnum = profile_schoolnum prof,
             platform = pf,
             registered = getTime env,
             lastInvoked = getTime env\<rparr>"
  have tbl: "auth_table st' = auth_table st"
    using assms(6) by (rule auth_accepts_table)
  have len: "length t = 40"
    using assms(7) by (simp add: token_length)
  have "middleware env cx st = first_login env cx ?gp pf st"
    using assms(1-5) by (simp add: middleware_def login_def Let_def)
  also have "\<dots> = (Inr (Body t), st'\<lparr>auth_table := auth_table st @ [?r]\<rparr>)"
    using assms(6,7) tbl by (simp add: first_login_def Let_def db_auth_insert_def)
  finally have run: "middleware env cx st = (Inr (Body t), st'\<lparr>auth_table := auth_table st @ [?r]\<rparr>)" .
  show ?thesis
    by (rule exI [of _ ?r]) (simp add: run len decrypt_encrypt)
qed

theorem first_login_inserts_record_witness:
  "\<exists>r. middleware (demo_env not_a_function) (login_request ''22012345'' ''p1'' (Some ''g1'')) empty_state
          = (Inr (Body demo_token),
             \<lparr>auth_table = [r],
              upstream_calls = [GraduateCall ''012345'' ''g1'', PrimaryCall ''22012345'' ''p1'']\<rparr>)
        \<and> registered r = 1000 \<and> lastInvoked r = 1000
        \<and> decrypt (demo_env not_a_function) ''p1'' (tokenEncrypted r) = demo_token
        \<and> decrypt (demo_env not_a_function) demo_token (passwordEncrypted r) = ''p1''"
proof -
  let ?env = "demo_env not_a_function"
  let ?cx = "login_request ''22012345'' ''p1'' (Some ''g1'')"
  let ?st' = "\<lparr>auth_table = [],
       upstream_calls = [GraduateCall ''012345'' ''g1'', PrimaryCall ''22012345'' ''p1'']\<rparr>"
  have h4: "''app'' \<noteq> ''''" by simp
  have h5: "db_auth_find (ByCardnumPlatform (p_cardnum ?cx) ''app'') (auth_table empty_state) = None"
    by (simp add: db_auth_find_def empty_state_def)
  have h6: "auth ?env (ctx_user ?cx) (p_cardnum ?cx) (p_password ?cx)
              (or_default (p_gpassword ?cx) (p_password ?cx)) empty_state
            = (Inr \<lparr>profile_name = ''Li'', profile_schoolnum = ''S1''\<rparr>, ?st')"
    by (simp add: login_request_ok or_default_def auth_def auth_try_def graduate_pattern_def
        is_digit_def demo_env_def invoke_def empty_state_def)
  have h7: "demo_token = toString_hex (randomBytes ?env 20)"
    by (simp add: demo_token_minted)
  have inv: "cipher_inverts ?env" by (rule demo_inverts)
  have tm: "getTime ?env = 1000" by (simp add: demo_env_def)
  from first_login_inserts_record
         [OF login_request_ok(1) login_request_ok(2) login_request_ok(3) h4 h5 h6 h7]
  obtain r where
    "middleware ?env ?cx empty_state = (Inr (Body demo_token), ?st'\<lparr>auth_table := auth_table empty_state @ [r]\<rparr>)"
    "registered r = getTime ?env" "lastInvoked r = getTime ?env"
    "cipher_inverts ?env \<longrightarrow>
       decrypt ?env (p_password ?cx) (tokenEncrypted r) = demo_token
       \<and> decrypt ?env demo_token (passwordEncrypted r) = p_password ?cx"
    by blast
  with inv tm show ?thesis
    by (intro exI [of _ r]) (simp add: login_request_ok empty_state_def)
qed

subsection \<open>The passthrough path\<close>

lemma find_after_update:
  "db_auth_find (ByTokenHash h) (db_auth_update (ByTokenHash h) (LastInvokedPatch n) table)
     = map_option (\<lambda>r. r\<lparr>lastInvoked := n\<rparr>) (db_auth_find (ByTokenHash h) table)"
  by (induction table) (simp_all add: db_auth_find_def db_auth_update_def)

text \<open>
  C5. A request outside \<^verbatim>\<open>/auth\<close> whose token hashes to a stored record: the records
  with that \<^verbatim>\<open>tokenHash\<close> get \<^verbatim>\<open>lastInvoked\<close> set to the current time and nothing
  else in the table changes, so the record found afterwards is the one found before with
  only \<^verbatim>\<open>lastInvoked\<close> replaced; no provider is called; the context handed downstream
  has \<^verbatim>\<open>isLogin = true\<close> and, as password, \<^verbatim>\<open>passwordEncrypted\<close> decrypted under
  the token, which is the password it was encrypted from when the cipher inverts. (That
  the current time is later than the old \<^verbatim>\<open>lastInvoked\<close> is a property of the clock.)
\<close>

theorem passthrough_updates_lastInvoked:
  assumes "path cx \<noteq> ''/auth''" and "header_token cx = Some token" and "token \<noteq> ''''"
    and "db_auth_find (ByTokenHash (hash env token)) (auth_table st) = Some record"
  shows "\<exists>u st'. middleware env cx st = (Inr (Next (Authenticated u)), st')
           \<and> get_field env (Authenticated u) IsLogin = Inr (JBool True)
           \<and> get_field env (Authenticated u) Password
               = Inr (JString (decrypt env token (passwordEncrypted record)))
           \<and> db_auth_find (ByTokenHash (hash env token)) (auth_table st')
               = Some (record\<lparr>lastInvoked := getTime env\<rparr>)
           \<and> auth_table st'
               = map (\<lambda>r. if tokenHash r = hash env token then r\<lparr>lastInvoked := getTime env\<rparr> else r)
                   (auth_table st)
           \<and> upstream_calls st' = upstream_calls st
           \<and> (\<forall>p. cipher_inverts env \<and> passwordEncrypted record = encrypt env token p
                  \<longrightarrow> u_password u = p)"
proof -
  have run: "middleware env cx st = passthrough env token record st"
    using assms by (simp add: middleware_def)
  have found: "db_auth_find (ByTokenHash (hash env token))
                 (db_auth_update (ByTokenHash (hash env token)) (LastInvokedPatch (getTime env))
                    (auth_table st))
               = Some (record\<lparr>lastInvoked := getTime env\<rparr>)"
    using assms(4) by (simp add: find_after_update)
  have tbl: "db_auth_update (ByTokenHash (hash env token)) (LastInvokedPatch (getTime env))
                    (auth_table st)
             = map (\<lambda>r. if tokenHash r = hash env token then r\<lparr>lastInvoked := getTime env\<rparr> else r)
                   (auth_table st)"
    by (simp add: db_auth_update_def)
  show ?thesis
    unfolding run passthrough_def Let_def
    using found tbl by (simp add: decrypt_encrypt)
qed

theorem passthrough_updates_lastInvoked_witness:
  "\<exists>u st'. middleware ((demo_env not_a_function)\<lparr>getTime := 2000\<rparr>)
               (token_request (Some demo_token)) demo_state
             = (Inr (Next (Authenticated u)), st')
         \<and> u_password u = ''p1''
         \<and> auth_table st' = [demo_record\<lparr>lastInvoked := 2000\<rparr>]
         \<and> upstream_calls st' = []"
proof -
  let ?env = "(demo_env not_a_function)\<lparr>getTime := 2000\<rparr>"
  let ?cx = "token_request (Some demo_token)"
  have h1: "path ?cx \<noteq> ''/auth''" by (simp add: token_request_def)
  have h2: "header_token ?cx = Some demo_token" by (simp add: token_request_def)
  have h3: "demo_token \<noteq> ''''" by (simp add: demo_token_def)
  have h4: "db_auth_find (ByTokenHash (hash ?env demo_token)) (auth_table demo_state)
              = Some demo_record"
    by (simp add: db_auth_find_def demo_state_def demo_record_def hash_def demo_env_def)
  have dec: "decrypt ?env demo_token (passwordEncrypted demo_record) = ''p1''"
    by (simp add: decrypt_def decrypt_try_def demo_env_def demo_decipher_final_def
        demo_record_def demo_token_def)
  have hh: "tokenHash demo_record = hash ?env demo_token"
    by (simp add: demo_record_def hash_def demo_env_def)
  from passthrough_updates_lastInvoked [OF h1 h2 h3 h4]
  obtain u st' where
    "middleware ?env ?cx demo_state = (Inr (Next (Authenticated u)), st')"
    "get_field ?env (Authenticated u) Password
       = Inr (JString (decrypt ?env demo_token (passwordEncrypted demo_record)))"
    "auth_table st'
       = map (\<lambda>r. if tokenHash r = hash ?env demo_token then r\<lparr>lastInvoked := getTime ?env\<rparr> else r)
           (auth_table demo_state)"
    "upstream_calls st' = upstream_calls demo_state"
    by blast
  with dec hh show ?thesis
    by (intro exI [of _ u] exI [of _ st']) (simp add: demo_state_def)
qed

subsection \<open>The anonymous context\<close>

lemma anonymous_token_undefined: "get_field env Anonymous Token = Inr JUndefined"
  by simp

text \<open>
  C8. A request outside \<^verbatim>\<open>/auth\<close> with no token, an empty token or a token whose hash
  matches no record is handed downstream with the anonymous context and an unchanged
  state, exactly as the same request without its token. Reading \<^verbatim>\<open>isLogin\<close> of that
  context gives false; reading \<^verbatim>\<open>encrypt\<close>, \<^verbatim>\<open>decrypt\<close>, \<^verbatim>\<open>identity\<close>,
  \<^verbatim>\<open>cardnum\<close>, \<^verbatim>\<open>password\<close>, \<^verbatim>\<open>gpassword\<close>, \<^verbatim>\<open>name\<close>, \<^verbatim>\<open>schoolnum\<close> or
  \<^verbatim>\<open>platform\<close>, or calling \<^verbatim>\<open>useAuthCookie\<close>, throws 401.
\<close>

theorem anonymous_context:
  assumes "path cx \<noteq> ''/auth''"
    and "header_token cx = None \<or> header_token cx = Some ''''
         \<or> (\<exists>t. header_token cx = Some t
                \<and> db_auth_find (ByTokenHash (hash env t)) (auth_table st) = None)"
  shows "middleware env cx st = (Inr (Next Anonymous), st)
       \<and> middleware env cx st = middleware env (cx\<lparr>header_token := None\<rparr>) st
       \<and> get_field env Anonymous IsLogin = Inr (JBool False)
       \<and> (\<forall>f \<in> {Encrypt, Decrypt, Identity, Cardnum, Password, Gpassword, Name, Schoolnum,
                 Platform}. get_field env Anonymous f = Inl (Status 401))
       \<and> useAuthCookie env Anonymous st = (Inl (Status 401), st)"
proof -
  have run: "middleware env cx st = (Inr (Next Anonymous), st)"
    using assms by (auto simp: middleware_def anonymous_def)
  have none: "middleware env (cx\<lparr>header_token := None\<rparr>) st = (Inr (Next Anonymous), st)"
    using assms(1) by (simp add: middleware_def anonymous_def)
  from run none show ?thesis
    by (simp add: useAuthCookie_def)
qed

theorem anonymous_context_witness:
  "middleware (demo_env not_a_function) (token_request (Some ''0badc0de'')) demo_state
     = (Inr (Next Anonymous), demo_state)
   \<and> middleware (demo_env not_a_function) (token_request (Some ''0badc0de'')) demo_state
     = middleware (demo_env not_a_function) (token_request None) demo_state
   \<and> get_field (demo_env not_a_function) Anonymous Cardnum = Inl (Status 401)
   \<and> get_field (demo_env not_a_function) Anonymous IsLogin = Inr (JBool False)"
proof -
  let ?env = "demo_env not_a_function"
  let ?cx = "token_request (Some ''0badc0de'')"
  have h1: "path ?cx \<noteq> ''/auth''" by (simp add: token_request_def)
  have h2: "header_token ?cx = None \<or> header_token ?cx = Some ''''
         \<or> (\<exists>t. header_token ?cx = Some t
                \<and> db_auth_find (ByTokenHash (hash ?env t)) (auth_table demo_state) = None)"
    by (simp add: token_request_def db_auth_find_def demo_state_def demo_record_def hash_def
        demo_env_def demo_token_def)
  have same: "?cx\<lparr>header_token := None\<rparr> = token_request None"
    by (simp add: token_request_def)
  from anonymous_context [OF h1 h2] same show ?thesis by auto
qed

subsection \<open>Secondary identities\<close>

lemma auth_calls_graduate:
  assumes "graduate_pattern c = Some sub"
  shows "upstream_calls (snd (auth env cu c pw gp st))
           = upstream_calls st @ GraduateCall sub gp #
               (case graduateAuthProvider env sub gp of Inl e \<Rightarrow> [] | Inr u \<Rightarrow> [PrimaryCall c pw])"
  using assms
  by (simp add: auth_def auth_try_def invoke_def split: sum.splits option.splits user_ctx.splits)

lemma auth_calls_primary_only:
  assumes "graduate_pattern c = None"
  shows "upstream_calls (snd (auth env cu c pw gp st)) = upstream_calls st @ [PrimaryCall c pw]"
  using assms
  by (simp add: auth_def auth_try_def invoke_def split: sum.splits option.splits user_ctx.splits)

lemma graduate_pattern_group:
  "graduate_pattern c = Some sub \<Longrightarrow> sub = drop (length c - 6) c \<and> length sub = 6 \<and> prefix22 c"
  by (auto simp: graduate_pattern_def prefix22_def split: if_splits)

lemma encrypted_nonempty:
  assumes "cipher_inverts env" and "empty_undecipherable env" and "val \<noteq> ''''"
  shows "encrypt env key val \<noteq> ''''"
proof
  assume "encrypt env key val = ''''"
  then have "decrypt env key '''' = val"
    using decrypt_encrypt [OF assms(1), of key val] by simp
  with assms(2,3) show False by (simp add: empty_undecipherable_def)
qed

lemma first_login_run:
  assumes "path cx = ''/auth''" and "toUpperCase (http_method cx) = ''POST''"
    and "p_platform cx = Some pf" and "pf \<noteq> ''''"
    and "db_auth_find (ByCardnumPlatform (p_cardnum cx) pf) (auth_table st) = None"
    and "auth env (ctx_user cx) (p_cardnum cx) (p_password cx)
           (or_default (p_gpassword cx) (p_password cx)) st = (Inr prof, st')"
  shows "middleware env cx st =
           (Inr (Body (toString_hex (randomBytes env 20))),
            st'\<lparr>auth_table := auth_table st @
              [\<lparr>cardnum = p_cardnum cx,
                tokenHash = hash env (toString_hex (randomBytes env 20)),
                tokenEncrypted = encrypt env (p_password cx) (toString_hex (randomBytes env 20)),
                passwordEncrypted = encrypt env (toString_hex (randomBytes env 20)) (p_password cx),
                passwordHash = hash env (p_password cx),
                gpasswordEncrypted =
                  (if prefix22 (p_cardnum cx)
                   then encrypt env (toString_hex (randomBytes env 20))
                          (or_default (p_gpassword cx) (p_password cx))
                   else ''''),
                name = profile_name prof,
                schoolnum = profile_schoolnum prof,
                platform = pf,
                registered = getTime env,
                lastInvoked = getTime env\<rparr>]\<rparr>)"
proof -
  have tbl: "auth_table st' = auth_table st"
    using assms(6) by (rule auth_accepts_table)
  have "middleware env cx st
          = first_login env cx (or_default (p_gpassword cx) (p_password cx)) pf st"
    using assms(1-5) by (simp add: middleware_def login_def Let_def)
  then show ?thesis
    using assms(6) tbl by (simp add: first_login_def Let_def db_auth_insert_def)
qed

lemma demo_auth_graduate:
  "auth (demo_env upd) None ''22012345'' ''p1'' ''g1'' empty_state
     = (Inr \<lparr>profile_name = ''Li'', profile_schoolnum = ''S1''\<rparr>,
        \<lparr>auth_table = [],
         upstream_calls = [GraduateCall ''012345'' ''g1'', PrimaryCall ''22012345'' ''p1'']\<rparr>)"
  by (simp add: auth_def auth_try_def graduate_pattern_def is_digit_def demo_env_def invoke_def
      empty_state_def)

text \<open>
  C9. For a card number that matches \<^verbatim>\<open>/^22\d*(\d{6})$/\<close>, the wrapper calls the
  graduate provider first, with the last six digits and the secondary password, and the
  primary provider after it only when the graduate provider returned; when the graduate
  provider throws, the wrapper throws the same. A first login for such a card number
  that the wrapper accepts, with a non-empty secondary password, stores a non-empty
  \<^verbatim>\<open>gpasswordEncrypted\<close> that the token decrypts to the secondary password (for a
  cipher that inverts and does not decipher the empty string).
\<close>

theorem graduate_login:
  assumes "graduate_pattern c = Some sub"
  shows "sub = drop (length c - 6) c
       \<and> upstream_calls (snd (auth env cu c pw gp st))
           = upstream_calls st @ GraduateCall sub gp #
               (case graduateAuthProvider env sub gp of Inl e \<Rightarrow> [] | Inr u \<Rightarrow> [PrimaryCall c pw])
       \<and> (\<forall>e. graduateAuthProvider env sub gp = Inl e \<longrightarrow> fst (auth env cu c pw gp st) = Inl e)
       \<and> (\<forall>(cx::ctx) pf prof st'.
             p_cardnum cx = c \<and> p_password cx = pw \<and> or_default (p_gpassword cx) pw = gp
             \<and> path cx = ''/auth'' \<and> toUpperCase (http_method cx) = ''POST''
             \<and> p_platform cx = Some pf \<and> pf \<noteq> ''''
             \<and> db_auth_find (ByCardnumPlatform c pf) (auth_table st) = None
             \<and> auth env (ctx_user cx) c pw gp st = (Inr prof, st')
             \<and> gp \<noteq> '''' \<and> cipher_inverts env \<and> empty_undecipherable env
             \<longrightarrow> (\<exists>r. middleware env cx st
                        = (Inr (Body (toString_hex (randomBytes env 20))),
                           st'\<lparr>auth_table := auth_table st @ [r]\<rparr>)
                      \<and> gpasswordEncrypted r \<noteq> ''''
                      \<and> decrypt env (toString_hex (randomBytes env 20)) (gpasswordEncrypted r) = gp))"
proof (intro conjI allI impI)
  show "sub = drop (length c - 6) c"
    using assms graduate_pattern_group by blast
next
  show "upstream_calls (snd (auth env cu c pw gp st))
           = upstream_calls st @ GraduateCall sub gp #
               (case graduateAuthProvider env sub gp of Inl e \<Rightarrow> [] | Inr u \<Rightarrow> [PrimaryCall c pw])"
    using assms by (rule auth_calls_graduate)
next
  fix e assume "graduateAuthProvider env sub gp = Inl e"
  with assms show "fst (auth env cu c pw gp st) = Inl e"
    by (simp add: auth_def auth_try_def)
next
  fix cx :: ctx and pf prof st'
  assume h: "p_cardnum cx = c \<and> p_password cx = pw \<and> or_default (p_gpassword cx) pw = gp
             \<and> path cx = ''/auth'' \<and> toUpperCase (http_method cx) = ''POST''
             \<and> p_platform cx = Some pf \<and> pf \<noteq> ''''
             \<and> db_auth_find (ByCardnumPlatform c pf) (auth_table st) = None
             \<and> auth env (ctx_user cx) c pw gp st = (Inr prof, st')
             \<and> gp \<noteq> '''' \<and> cipher_inverts env \<and> empty_undecipherable env"
  let ?t = "toString_hex (randomBytes env 20)"
  have p22: "prefix22 c"
    using assms graduate_pattern_group by blast
  from h have run: "middleware env cx st =
      (Inr (Body ?t),
       st'\<lparr>auth_table := auth_table st @
          [\<lparr>cardnum = c, tokenHash = hash env ?t, tokenEncrypted = encrypt env pw ?t,
            passwordEncrypted = encrypt env ?t pw, passwordHash = hash env pw,
            gpasswordEncrypted = encrypt env ?t gp,
            name = profile_name prof, schoolnum = profile_schoolnum prof, platform = pf,
            registered = getTime env, lastInvoked = getTime env\<rparr>]\<rparr>)"
    using first_login_run [of cx pf st env prof st'] p22 by simp
  from h have ne: "encrypt env ?t gp \<noteq> ''''"
    by (simp add: encrypted_nonempty)
  from h have rt: "decrypt env ?t (encrypt env ?t gp) = gp"
    by (simp add: decrypt_encrypt)
  show "\<exists>r. middleware env cx st = (Inr (Body ?t), st'\<lparr>auth_table := auth_table st @ [r]\<rparr>)
            \<and> gpasswordEncrypted r \<noteq> '''' \<and> decrypt env ?t (gpasswordEncrypted r) = gp"
    using run ne rt by fastforce
qed

theorem graduate_login_witness:
  "graduate_pattern ''22012345'' = Some ''012345''
   \<and> upstream_calls (snd (auth (demo_env not_a_function) None ''22012345'' ''p1'' ''g1'' empty_state))
       = [GraduateCall ''012345'' ''g1'', PrimaryCall ''22012345'' ''p1'']
   \<and> fst (auth (demo_env not_a_function) None ''22012345'' ''p1'' ''g2'' empty_state)
       = Inl (Status 401)
   \<and> (\<exists>r. middleware (demo_env not_a_function) (login_request ''22012345'' ''p1'' (Some ''g1''))
               empty_state
             = (Inr (Body demo_token),
                \<lparr>auth_table = [r],
                 upstream_calls = [GraduateCall ''012345'' ''g1'', PrimaryCall ''22012345'' ''p1'']\<rparr>)
          \<and> gpasswordEncrypted r \<noteq> ''''
          \<and> decrypt (demo_env not_a_function) demo_token (gpasswordEncrypted r) = ''g1'')"
proof -
  let ?env = "demo_env not_a_function"
  let ?cx = "login_request ''22012345'' ''p1'' (Some ''g1'')"
  let ?st' = "\<lparr>auth_table = [],
       upstream_calls = [GraduateCall ''012345'' ''g1'', PrimaryCall ''22012345'' ''p1'']\<rparr>"
  let ?prof = "\<lparr>profile_name = ''Li'', profile_schoolnum = ''S1''\<rparr>"
  have pat: "graduate_pattern ''22012345'' = Some ''012345''"
    by (simp add: graduate_pattern_def is_digit_def)
  have ok: "graduateAuthProvider ?env ''012345'' ''g1'' = Inr ()"
    by (simp add: demo_env_def)
  have no: "graduateAuthProvider ?env ''012345'' ''g2'' = Inl (Status 401)"
    by (simp add: demo_env_def)
  have pre: "p_cardnum ?cx = ''22012345'' \<and> p_password ?cx = ''p1''
             \<and> or_default (p_gpassword ?cx) ''p1'' = ''g1''
             \<and> path ?cx = ''/auth'' \<and> toUpperCase (http_method ?cx) = ''POST''
             \<and> p_platform ?cx = Some ''app'' \<and> ''app'' \<noteq> ''''
             \<and> db_auth_find (ByCardnumPlatform ''22012345'' ''app'') (auth_table empty_state) = None
             \<and> auth ?env (ctx_user ?cx) ''22012345'' ''p1'' ''g1'' empty_state = (Inr ?prof, ?st')
             \<and> ''g1'' \<noteq> '''' \<and> cipher_inverts ?env \<and> empty_undecipherable ?env"
    by (simp add: login_request_ok or_default_def db_auth_find_def empty_state_def
        demo_auth_graduate [unfolded empty_state_def] demo_inverts demo_empty_undecipherable)
  note g1 = graduate_login [OF pat, of ?env None "''p1''" "''g1''" empty_state]
  note g2 = graduate_login [OF pat, of ?env None "''p1''" "''g2''" empty_state]
  from g1 ok have calls:
    "upstream_calls (snd (auth ?env None ''22012345'' ''p1'' ''g1'' empty_state))
       = [GraduateCall ''012345'' ''g1'', PrimaryCall ''22012345'' ''p1'']"
    by (simp add: empty_state_def)
  from g2 no have rej: "fst (auth ?env None ''22012345'' ''p1'' ''g2'' empty_state) = Inl (Status 401)"
    by blast
  from g1 pre have "\<exists>r. middleware ?env ?cx empty_state
                        = (Inr (Body (toString_hex (randomBytes ?env 20))),
                           ?st'\<lparr>auth_table := auth_table empty_state @ [r]\<rparr>)
                      \<and> gpasswordEncrypted r \<noteq> ''''
                      \<and> decrypt ?env (toString_hex (randomBytes ?env 20)) (gpasswordEncrypted r) = ''g1''"
    by blast
  then have stored: "\<exists>r. middleware ?env ?cx empty_state
             = (Inr (Body demo_token), \<lparr>auth_table = [r],
                 upstream_calls = [GraduateCall ''012345'' ''g1'', PrimaryCall ''22012345'' ''p1'']\<rparr>)
          \<and> gpasswordEncrypted r \<noteq> ''''
          \<and> decrypt ?env demo_token (gpasswordEncrypted r) = ''g1''"
    by (simp add: demo_token_minted empty_state_def)
  from pat calls rej stored show ?thesis by blast
qed

lemma demo_hash: "hash (demo_env upd) v = ''md5:'' @ v"
  by (simp add: hash_def demo_env_def)

lemma demo_providers:
  "authProvider (demo_env upd) c p =
     (if p = ''p1'' then Inr \<lparr>profile_name = ''Li'', profile_schoolnum = ''S1''\<rparr>
      else Inl (Status 401))"
  "graduateAuthProvider (demo_env upd) sub g = (if g = ''g1'' then Inr () else Inl (Status 401))"
  "db_update (demo_env upd) = upd"
  "getTime (demo_env upd) = 1000"
  by (simp_all add: demo_env_def)

lemma refresh_calls:
  "upstream_calls (snd (refresh env cx gp pf token st))
     = upstream_calls (snd (auth env (ctx_user cx) (p_cardnum cx) (p_password cx) gp st))"
  by (simp add: refresh_def split: prod.splits sum.splits)

text \<open>
  C10. The wrapper tests the card number against the whole pattern, the login and the
  passthrough only against the prefix 22. For a card number with the prefix that does not
  match the pattern: the wrapper calls the primary provider alone; a first login stores
  \<^verbatim>\<open>gpasswordEncrypted = encrypt(token, gpassword)\<close>, non-empty for a non-empty
  secondary password (and a cipher that inverts and does not decipher the empty string),
  while the graduate provider is not called; a later login whose password matches
  compares the secondary password with the stored one: equal, the token is answered
  without any provider; different, the refresh is run, which again calls the primary
  provider alone; and a request with the token of such a record is handed downstream with
  \<^verbatim>\<open>gpassword\<close> set to \<^verbatim>\<open>gpasswordEncrypted\<close> decrypted under the token (lines
  207-211), while its \<^verbatim>\<open>useAuthCookie\<close> calls the primary provider alone. Such card
  numbers exist below eight digits, \<open>2201\<close> for one.
\<close>

theorem secondary_tests_differ:
  assumes "prefix22 c" and "graduate_pattern c = None"
  shows "upstream_calls (snd (auth env cu c pw gp st)) = upstream_calls st @ [PrimaryCall c pw]
       \<and> (\<forall>(cx::ctx) pf prof st'.
             p_cardnum cx = c \<and> p_password cx = pw \<and> or_default (p_gpassword cx) pw = gp
             \<and> path cx = ''/auth'' \<and> toUpperCase (http_method cx) = ''POST''
             \<and> p_platform cx = Some pf \<and> pf \<noteq> ''''
             \<and> db_auth_find (ByCardnumPlatform c pf) (auth_table st) = None
             \<and> auth env (ctx_user cx) c pw gp st = (Inr prof, st')
             \<and> gp \<noteq> '''' \<and> cipher_inverts env \<and> empty_undecipherable env
             \<longrightarrow> (\<exists>r. middleware env cx st
                        = (Inr (Body (toString_hex (randomBytes env 20))),
                           st'\<lparr>auth_table := auth_table st @ [r]\<rparr>)
                      \<and> gpasswordEncrypted r = encrypt env (toString_hex (randomBytes env 20)) gp
                      \<and> gpasswordEncrypted r \<noteq> ''''
                      \<and> upstream_calls st' = upstream_calls st @ [PrimaryCall c pw]))
       \<and> (\<forall>(cx::ctx) pf existing token.
             p_cardnum cx = c \<and> p_password cx = pw \<and> or_default (p_gpassword cx) pw = gp
             \<and> path cx = ''/auth'' \<and> toUpperCase (http_method cx) = ''POST''
             \<and> p_platform cx = Some pf \<and> pf \<noteq> ''''
             \<and> db_auth_find (ByCardnumPlatform c pf) (auth_table st) = Some existing
             \<and> token = decrypt env pw (tokenEncrypted existing) \<and> token \<noteq> ''''
             \<and> passwordHash existing = hash env pw
             \<longrightarrow> (gp = decrypt env token (gpasswordEncrypted existing)
                    \<longrightarrow> middleware env cx st = (Inr (Body token), st))
                \<and> (gp \<noteq> decrypt env token (gpasswordEncrypted existing)
                    \<longrightarrow> middleware env cx st = refresh env cx gp pf token st
                      \<and> upstream_calls (snd (middleware env cx st))
                          = upstream_calls st @ [PrimaryCall c pw]))
       \<and> (\<forall>(cx::ctx) token record.
             path cx \<noteq> ''/auth'' \<and> header_token cx = Some token \<and> token \<noteq> ''''
             \<and> db_auth_find (ByTokenHash (hash env token)) (auth_table st) = Some record
             \<and> cardnum record = c
             \<longrightarrow> (\<exists>u st'. middleware env cx st = (Inr (Next (Authenticated u)), st')
                      \<and> u_cardnum u = c
                      \<and> u_gpassword u = decrypt env token (gpasswordEncrypted record)
                      \<and> upstream_calls (snd (useAuthCookie env (Authenticated u) st'))
                          = upstream_calls st
                            @ [PrimaryCall c (decrypt env token (passwordEncrypted record))]))
       \<and> (\<exists>c'. prefix22 c' \<and> length c' < 8 \<and> list_all is_digit c' \<and> graduate_pattern c' = None)"
proof (intro conjI allI impI)
  show "upstream_calls (snd (auth env cu c pw gp st)) = upstream_calls st @ [PrimaryCall c pw]"
    using assms(2) by (rule auth_calls_primary_only)
next
  fix cx :: ctx and pf prof st'
  assume h: "p_cardnum cx = c \<and> p_password cx = pw \<and> or_default (p_gpassword cx) pw = gp
             \<and> path cx = ''/auth'' \<and> toUpperCase (http_method cx) = ''POST''
             \<and> p_platform cx = Some pf \<and> pf \<noteq> ''''
             \<and> db_auth_find (ByCardnumPlatform c pf) (auth_table st) = None
             \<and> auth env (ctx_user cx) c pw gp st = (Inr prof, st')
             \<and> gp \<noteq> '''' \<and> cipher_inverts env \<and> empty_undecipherable env"
  let ?t = "toString_hex (randomBytes env 20)"
  from h have run: "middleware env cx st =
      (Inr (Body ?t),
       st'\<lparr>auth_table := auth_table st @
          [\<lparr>cardnum = c, tokenHash = hash env ?t, tokenEncrypted = encrypt env pw ?t,
            passwordEncrypted = encrypt env ?t pw, passwordHash = hash env pw,
            gpasswordEncrypted = encrypt env ?t gp,
            name = profile_name prof, schoolnum = profile_schoolnum prof, platform = pf,
            registered = getTime env, lastInvoked = getTime env\<rparr>]\<rparr>)"
    using first_login_run [of cx pf st env prof st'] assms(1) by simp
  from h have ne: "encrypt env ?t gp \<noteq> ''''"
    by (simp add: encrypted_nonempty)
  from h have calls: "upstream_calls st' = upstream_calls st @ [PrimaryCall c pw]"
    using auth_calls_primary_only [OF assms(2), of env "ctx_user cx" pw gp st] by simp
  show "\<exists>r. middleware env cx st = (Inr (Body ?t), st'\<lparr>auth_table := auth_table st @ [r]\<rparr>)
            \<and> gpasswordEncrypted r = encrypt env ?t gp \<and> gpasswordEncrypted r \<noteq> ''''
            \<and> upstream_calls st' = upstream_calls st @ [PrimaryCall c pw]"
    using run ne calls by fastforce
next
  fix cx :: ctx and pf existing token
  assume h: "p_cardnum cx = c \<and> p_password cx = pw \<and> or_default (p_gpassword cx) pw = gp
             \<and> path cx = ''/auth'' \<and> toUpperCase (http_method cx) = ''POST''
             \<and> p_platform cx = Some pf \<and> pf \<noteq> ''''
             \<and> db_auth_find (ByCardnumPlatform c pf) (auth_table st) = Some existing
             \<and> token = decrypt env pw (tokenEncrypted existing) \<and> token \<noteq> ''''
             \<and> passwordHash existing = hash env pw"
  assume "gp = decrypt env token (gpasswordEncrypted existing)"
  with h show "middleware env cx st = (Inr (Body token), st)"
    by (auto simp: middleware_def login_def Let_def)
next
  fix cx :: ctx and pf existing token
  assume h: "p_cardnum cx = c \<and> p_password cx = pw \<and> or_default (p_gpassword cx) pw = gp
             \<and> path cx = ''/auth'' \<and> toUpperCase (http_method cx) = ''POST''
             \<and> p_platform cx = Some pf \<and> pf \<noteq> ''''
             \<and> db_auth_find (ByCardnumPlatform c pf) (auth_table st) = Some existing
             \<and> token = decrypt env pw (tokenEncrypted existing) \<and> token \<noteq> ''''
             \<and> passwordHash existing = hash env pw"
  assume d: "gp \<noteq> decrypt env token (gpasswordEncrypted existing)"
  from h d assms(1) show run: "middleware env cx st = refresh env cx gp pf token st"
    by (auto simp: middleware_def login_def Let_def)
  from h show "upstream_calls (snd (middleware env cx st)) = upstream_calls st @ [PrimaryCall c pw]"
    unfolding run refresh_calls
    using auth_calls_primary_only [OF assms(2), of env "ctx_user cx" pw gp st] by simp
next
  fix cx :: ctx and token rcd
  assume h: "path cx \<noteq> ''/auth'' \<and> header_token cx = Some token \<and> token \<noteq> ''''
             \<and> db_auth_find (ByTokenHash (hash env token)) (auth_table st) = Some rcd
             \<and> cardnum rcd = c"
  let ?pw = "decrypt env token (passwordEncrypted rcd)"
  let ?gp = "decrypt env token (gpasswordEncrypted rcd)"
  let ?u = "\<lparr>u_key = token, u_token = hash env token,
             u_identity = hash env (cardnum rcd @ name rcd), u_cardnum = cardnum rcd,
             u_password = ?pw, u_gpassword = ?gp, u_name = name rcd,
             u_schoolnum = schoolnum rcd, u_platform = platform rcd\<rparr>"
  let ?st' = "st\<lparr>auth_table :=
                db_auth_update (ByTokenHash (hash env token)) (LastInvokedPatch (getTime env))
                  (auth_table st)\<rparr>"
  from h assms(1) have run: "middleware env cx st = (Inr (Next (Authenticated ?u)), ?st')"
    by (simp add: middleware_def passthrough_def Let_def)
  from h have calls: "upstream_calls (snd (useAuthCookie env (Authenticated ?u) ?st'))
                        = upstream_calls st @ [PrimaryCall c ?pw]"
    using auth_calls_primary_only [OF assms(2), of env "Some (Authenticated ?u)" ?pw ?gp ?st']
    by (simp add: useAuthCookie_def)
  show "\<exists>u st'. middleware env cx st = (Inr (Next (Authenticated u)), st')
                  \<and> u_cardnum u = c
                  \<and> u_gpassword u = decrypt env token (gpasswordEncrypted rcd)
                  \<and> upstream_calls (snd (useAuthCookie env (Authenticated u) st'))
                      = upstream_calls st @ [PrimaryCall c ?pw]"
    using run calls h by (intro exI [of _ ?u] exI [of _ ?st']) simp
next
  have "prefix22 ''2201'' \<and> length ''2201'' < 8 \<and> list_all is_digit ''2201''
        \<and> graduate_pattern ''2201'' = None"
    by (simp add: prefix22_def is_digit_def graduate_pattern_def)
  then show "\<exists>c'. prefix22 c' \<and> length c' < 8 \<and> list_all is_digit c' \<and> graduate_pattern c' = None"
    by blast
qed

theorem secondary_tests_differ_witness:
  "upstream_calls (snd (auth (demo_env not_a_function) None ''2201'' ''p1'' ''g1'' empty_state))
     = [PrimaryCall ''2201'' ''p1'']
   \<and> (\<exists>r. middleware (demo_env not_a_function) (login_request ''2201'' ''p1'' (Some ''g1''))
              empty_state
            = (Inr (Body demo_token),
               \<lparr>auth_table = [r], upstream_calls = [PrimaryCall ''2201'' ''p1'']\<rparr>)
          \<and> gpasswordEncrypted r = ''g1#'' @ demo_token)
   \<and> upstream_calls (snd (middleware (demo_env not_a_function)
        (login_request ''2201'' ''p1'' (Some ''g2'')) short_state))
     = [PrimaryCall ''2201'' ''p1'']
   \<and> middleware (demo_env not_a_function) (login_request ''2201'' ''p1'' (Some ''g1'')) short_state
     = (Inr (Body demo_token), short_state)
   \<and> (\<exists>u st'. middleware (demo_env not_a_function) (token_request (Some demo_token)) short_state
                 = (Inr (Next (Authenticated u)), st')
          \<and> u_cardnum u = ''2201'' \<and> u_gpassword u = ''g1''
          \<and> upstream_calls (snd (useAuthCookie (demo_env not_a_function) (Authenticated u) st'))
              = [PrimaryCall ''2201'' ''p1''])"
proof -
  let ?env = "demo_env not_a_function"
  let ?cx = "login_request ''2201'' ''p1'' (Some ''g1'')"
  let ?cx2 = "login_request ''2201'' ''p1'' (Some ''g2'')"
  let ?prof = "\<lparr>profile_name = ''Li'', profile_schoolnum = ''S1''\<rparr>"
  let ?st' = "\<lparr>auth_table = [], upstream_calls = [PrimaryCall ''2201'' ''p1'']\<rparr>"
  have p: "prefix22 ''2201''" by (simp add: prefix22_def)
  have n: "graduate_pattern ''2201'' = None" by (simp add: graduate_pattern_def)
  note t1 = secondary_tests_differ [OF p n, of ?env None "''p1''" "''g1''" empty_state]
  note t2 = secondary_tests_differ [OF p n, of ?env None "''p1''" "''g2''" short_state]
  note t3 = secondary_tests_differ [OF p n, of ?env None "''p1''" "''g1''" short_state]
  from t1 have a: "upstream_calls (snd (auth ?env None ''2201'' ''p1'' ''g1'' empty_state))
     = [PrimaryCall ''2201'' ''p1'']"
    by (simp add: empty_state_def)
  have au: "auth ?env (ctx_user ?cx) ''2201'' ''p1'' ''g1'' empty_state = (Inr ?prof, ?st')"
    by code_simp
  have pre1: "p_cardnum ?cx = ''2201'' \<and> p_password ?cx = ''p1''
             \<and> or_default (p_gpassword ?cx) ''p1'' = ''g1''
             \<and> path ?cx = ''/auth'' \<and> toUpperCase (http_method ?cx) = ''POST''
             \<and> p_platform ?cx = Some ''app'' \<and> ''app'' \<noteq> ''''
             \<and> db_auth_find (ByCardnumPlatform ''2201'' ''app'') (auth_table empty_state) = None
             \<and> auth ?env (ctx_user ?cx) ''2201'' ''p1'' ''g1'' empty_state = (Inr ?prof, ?st')
             \<and> ''g1'' \<noteq> '''' \<and> cipher_inverts ?env \<and> empty_undecipherable ?env"
    using au
    by (simp add: login_request_ok or_default_def db_auth_find_def empty_state_def
        demo_inverts demo_empty_undecipherable)
  from t1 pre1 have "\<exists>r. middleware ?env ?cx empty_state
                        = (Inr (Body (toString_hex (randomBytes ?env 20))),
                           ?st'\<lparr>auth_table := auth_table empty_state @ [r]\<rparr>)
                      \<and> gpasswordEncrypted r = encrypt ?env (toString_hex (randomBytes ?env 20)) ''g1''"
    by blast
  then have b: "\<exists>r. middleware ?env ?cx empty_state
            = (Inr (Body demo_token),
               \<lparr>auth_table = [r], upstream_calls = [PrimaryCall ''2201'' ''p1'']\<rparr>)
          \<and> gpasswordEncrypted r = ''g1#'' @ demo_token"
    by (simp add: demo_token_minted empty_state_def demo_encrypt)
  have pre2: "p_cardnum ?cx2 = ''2201'' \<and> p_password ?cx2 = ''p1''
             \<and> or_default (p_gpassword ?cx2) ''p1'' = ''g2''
             \<and> path ?cx2 = ''/auth'' \<and> toUpperCase (http_method ?cx2) = ''POST''
             \<and> p_platform ?cx2 = Some ''app'' \<and> ''app'' \<noteq> ''''
             \<and> db_auth_find (ByCardnumPlatform ''2201'' ''app'') (auth_table short_state)
                 = Some short_record
             \<and> demo_token = decrypt ?env ''p1'' (tokenEncrypted short_record)
             \<and> demo_token \<noteq> ''''
             \<and> passwordHash short_record = hash ?env ''p1''"
    by (simp add: login_request_ok or_default_def db_auth_find_def short_state_def
        short_record_def demo_record_def demo_decrypt demo_token_def demo_hash)
  have ne: "''g2'' \<noteq> decrypt ?env demo_token (gpasswordEncrypted short_record)"
    by (simp add: short_record_def demo_record_def demo_decrypt demo_token_def)
  from t2 pre2 ne have c: "upstream_calls (snd (middleware ?env ?cx2 short_state))
                          = upstream_calls short_state @ [PrimaryCall ''2201'' ''p1'']"
    by blast
  have pre3: "p_cardnum ?cx = ''2201'' \<and> p_password ?cx = ''p1''
             \<and> or_default (p_gpassword ?cx) ''p1'' = ''g1''
             \<and> path ?cx = ''/auth'' \<and> toUpperCase (http_method ?cx) = ''POST''
             \<and> p_platform ?cx = Some ''app'' \<and> ''app'' \<noteq> ''''
             \<and> db_auth_find (ByCardnumPlatform ''2201'' ''app'') (auth_table short_state)
                 = Some short_record
             \<and> demo_token = decrypt ?env ''p1'' (tokenEncrypted short_record)
             \<and> demo_token \<noteq> ''''
             \<and> passwordHash short_record = hash ?env ''p1''"
    by (simp add: login_request_ok or_default_def db_auth_find_def short_state_def
        short_record_def demo_record_def demo_decrypt demo_token_def demo_hash)
  have eq: "''g1'' = decrypt ?env demo_token (gpasswordEncrypted short_record)"
    by (simp add: short_record_def demo_record_def demo_decrypt demo_token_def)
  from t3 pre3 eq have d: "middleware ?env ?cx short_state = (Inr (Body demo_token), short_state)"
    by blast
  have pre4: "path (token_request (Some demo_token)) \<noteq> ''/auth''
              \<and> header_token (token_request (Some demo_token)) = Some demo_token
              \<and> demo_token \<noteq> ''''
              \<and> db_auth_find (ByTokenHash (hash ?env demo_token)) (auth_table short_state)
                  = Some short_record
              \<and> cardnum short_record = ''2201''"
    by (simp add: token_request_def db_auth_find_def short_state_def short_record_def
        demo_record_def demo_hash demo_token_def)
  have dg: "decrypt ?env demo_token (gpasswordEncrypted short_record) = ''g1''"
    by (simp add: short_record_def demo_record_def demo_decrypt demo_token_def)
  have dp: "decrypt ?env demo_token (passwordEncrypted short_record) = ''p1''"
    by (simp add: short_record_def demo_record_def demo_decrypt demo_token_def)
  from t3 pre4 have "\<exists>u st'. middleware ?env (token_request (Some demo_token)) short_state
                 = (Inr (Next (Authenticated u)), st')
          \<and> u_cardnum u = ''2201''
          \<and> u_gpassword u = decrypt ?env demo_token (gpasswordEncrypted short_record)
          \<and> upstream_calls (snd (useAuthCookie ?env (Authenticated u) st'))
              = upstream_calls short_state
                @ [PrimaryCall ''2201'' (decrypt ?env demo_token (passwordEncrypted short_record))]"
    by blast
  then have e: "\<exists>u st'. middleware ?env (token_request (Some demo_token)) short_state
                 = (Inr (Next (Authenticated u)), st')
          \<and> u_cardnum u = ''2201'' \<and> u_gpassword u = ''g1''
          \<and> upstream_calls (snd (useAuthCookie ?env (Authenticated u) st'))
              = [PrimaryCall ''2201'' ''p1'']"
    by (simp add: dg dp short_state_def)
  from a b c d e show ?thesis by (simp add: short_state_def)
qed

subsection \<open>Rejection by the upstream providers\<close>

lemma auth_none_table: "auth_table (snd (auth env None c pw gp st)) = auth_table st"
  using auth_try_table [of env c pw gp st]
  by (auto simp: auth_def split: prod.splits sum.splits)

lemma login_failure_table:
  assumes "ctx_user cx = None" and "fst (login env cx st) = Inl e"
  shows "auth_table (snd (login env cx st)) = auth_table st"
  using assms auth_none_table [of env "p_cardnum cx" "p_password cx"
      "or_default (p_gpassword cx) (p_password cx)" st]
  by (auto simp: login_def first_login_def refresh_def Let_def
      split: if_splits option.splits prod.splits sum.splits)

lemma find_after_remove:
  "db_auth_find (ByTokenHash h) (db_auth_remove (ByTokenHash h) table) = None"
  by (induction table) (simp_all add: db_auth_find_def db_auth_remove_def)

text \<open>
  C2, as stated, fails on the login path. The state holds the record of \<open>22012345\<close>
  on \<open>app\<close>. A login with the stored password and a changed secondary password
  reaches the refresh (line 130), the graduate provider throws 401, and the login throws
  401 with the record still in the table; likewise a login with a changed password,
  which the primary provider rejects (line 158). On the login endpoint \<^verbatim>\<open>ctx.user\<close>
  is not set, so the guard \<^verbatim>\<open>ctx.user && ctx.user.isLogin\<close> of the wrapper is false.
\<close>

theorem relogin_rejected_keeps_record:
  "middleware (demo_env not_a_function) (login_request ''22012345'' ''p1'' (Some ''g2'')) demo_state
     = (Inl (Status 401),
        \<lparr>auth_table = [demo_record], upstream_calls = [GraduateCall ''012345'' ''g2'']\<rparr>)
   \<and> middleware (demo_env not_a_function) (login_request ''22012345'' ''p2'' (Some ''g1'')) demo_state
     = (Inl (Status 401),
        \<lparr>auth_table = [demo_record],
         upstream_calls = [GraduateCall ''012345'' ''g1'', PrimaryCall ''22012345'' ''p2'']\<rparr>)"
  by code_simp

text \<open>
  C2, amended. When a provider called by the wrapper throws 401, the wrapper throws 401.
  The table afterwards is the table before without the records whose \<^verbatim>\<open>tokenHash\<close> is
  \<^verbatim>\<open>ctx.user.token\<close> when \<^verbatim>\<open>ctx.user\<close> is an authenticated context, and the table
  before otherwise. So \<^verbatim>\<open>useAuthCookie\<close> of an authenticated context whose cached
  credentials are rejected throws 401 and leaves no record for its token; and a request
  to \<^verbatim>\<open>/auth\<close>, where \<^verbatim>\<open>ctx.user\<close> is not set, leaves the table as it was
  whenever it throws.
\<close>

theorem auth_unauthorized:
  assumes "fst (auth_try env c pw gp st) = Inl (Status 401)"
  shows "fst (auth env cu c pw gp st) = Inl (Status 401)
       \<and> auth_table (snd (auth env cu c pw gp st))
           = (case cu of
                Some (Authenticated u) \<Rightarrow> db_auth_remove (ByTokenHash (u_token u)) (auth_table st)
              | _ \<Rightarrow> auth_table st)
       \<and> (\<forall>u. u_cardnum u = c \<and> u_password u = pw \<and> u_gpassword u = gp
              \<longrightarrow> fst (useAuthCookie env (Authenticated u) st) = Inl (Status 401)
                \<and> db_auth_find (ByTokenHash (u_token u))
                    (auth_table (snd (useAuthCookie env (Authenticated u) st))) = None)
       \<and> (\<forall>(cx::ctx) e. path cx = ''/auth'' \<and> ctx_user cx = None
              \<and> fst (middleware env cx st) = Inl e
              \<longrightarrow> auth_table (snd (middleware env cx st)) = auth_table st)"
proof -
  obtain st' where t: "auth_try env c pw gp st = (Inl (Status 401), st')"
    using assms by (cases "auth_try env c pw gp st") simp
  have tbl: "auth_table st' = auth_table st"
    using auth_try_table [of env c pw gp st] t by simp
  have a: "fst (auth env cu c pw gp st) = Inl (Status 401)" for cu
    using t by (simp add: auth_def)
  have b: "auth_table (snd (auth env cu c pw gp st))
           = (case cu of
                Some (Authenticated u) \<Rightarrow> db_auth_remove (ByTokenHash (u_token u)) (auth_table st)
              | _ \<Rightarrow> auth_table st)" for cu
    using t tbl by (simp add: auth_def split: option.splits user_ctx.splits)
  have c: "fst (useAuthCookie env (Authenticated u) st) = Inl (Status 401)
           \<and> db_auth_find (ByTokenHash (u_token u))
                (auth_table (snd (useAuthCookie env (Authenticated u) st))) = None"
    if "u_cardnum u = c \<and> u_password u = pw \<and> u_gpassword u = gp" for u
    using that a [of "Some (Authenticated u)"] b [of "Some (Authenticated u)"]
    by (simp add: useAuthCookie_def find_after_remove)
  have d: "auth_table (snd (middleware env cx st)) = auth_table st"
    if "path cx = ''/auth'' \<and> ctx_user cx = None \<and> fst (middleware env cx st) = Inl e"
    for cx :: ctx and e
  proof -
    from that have m: "middleware env cx st = login env cx st"
      by (simp add: middleware_def)
    with that show ?thesis
      using login_failure_table [of cx env st e] by simp
  qed
  from a b c d show ?thesis by blast
qed

theorem auth_unauthorized_witness:
  "middleware (demo_env not_a_function) (token_request (Some demo_token)) stale_state
     = (Inr (Next (Authenticated stale_user)), stale_state)
   \<and> fst (useAuthCookie (demo_env not_a_function) (Authenticated stale_user) stale_state)
       = Inl (Status 401)
   \<and> auth_table (snd (useAuthCookie (demo_env not_a_function) (Authenticated stale_user)
        stale_state)) = []
   \<and> fst (auth (demo_env not_a_function) None ''22012345'' ''p1'' ''g0'' stale_state)
       = Inl (Status 401)
   \<and> auth_table (snd (auth (demo_env not_a_function) None ''22012345'' ''p1'' ''g0'' stale_state))
       = [stale_record]
   \<and> auth_table (snd (middleware (demo_env not_a_function)
        (login_request ''22012345'' ''p1'' (Some ''g2'')) stale_state)) = [stale_record]"
proof -
  let ?env = "demo_env not_a_function"
  let ?cx = "login_request ''22012345'' ''p1'' (Some ''g2'')"
  have h: "fst (auth_try ?env ''22012345'' ''p1'' ''g0'' stale_state) = Inl (Status 401)"
    by code_simp
  note t = auth_unauthorized [OF h]
  have pass: "middleware ?env (token_request (Some demo_token)) stale_state
     = (Inr (Next (Authenticated stale_user)), stale_state)"
    by code_simp
  have u: "u_cardnum stale_user = ''22012345'' \<and> u_password stale_user = ''p1''
           \<and> u_gpassword stale_user = ''g0''"
    by (simp add: stale_user_def)
  have rm: "db_auth_remove (ByTokenHash (u_token stale_user)) (auth_table stale_state) = []"
    by code_simp
  have ua: "useAuthCookie ?env (Authenticated stale_user) stale_state
            = auth ?env (Some (Authenticated stale_user)) ''22012345'' ''p1'' ''g0'' stale_state"
    by (simp add: useAuthCookie_def stale_user_def)
  from t [of "Some (Authenticated stale_user)"] u rm ua
  have a: "fst (useAuthCookie ?env (Authenticated stale_user) stale_state) = Inl (Status 401)
          \<and> auth_table (snd (useAuthCookie ?env (Authenticated stale_user) stale_state)) = []"
    by simp
  from t [of None]
  have b: "fst (auth ?env None ''22012345'' ''p1'' ''g0'' stale_state) = Inl (Status 401)
          \<and> auth_table (snd (auth ?env None ''22012345'' ''p1'' ''g0'' stale_state)) = [stale_record]"
    by (simp add: stale_state_def)
  have l: "path ?cx = ''/auth'' \<and> ctx_user ?cx = None
           \<and> fst (middleware ?env ?cx stale_state) = Inl (Status 401)"
    by code_simp
  from t [of None] l
  have c: "auth_table (snd (middleware ?env ?cx stale_state)) = auth_table stale_state"
    by blast
  from pass a b c show ?thesis by (simp add: stale_state_def)
qed

subsection \<open>Login with changed credentials\<close>

text \<open>
  What the refresh does when \<^verbatim>\<open>db.update\<close> behaves as \<^verbatim>\<open>db.auth.update\<close>: the
  token is answered and the four secret fields of the records of (cardnum, platform) are
  replaced by the recomputed ones.
\<close>

lemma refresh_with_table_update:
  assumes "path cx = ''/auth''" and "toUpperCase (http_method cx) = ''POST''"
    and "p_platform cx = Some pf" and "pf \<noteq> ''''"
    and "db_auth_find (ByCardnumPlatform (p_cardnum cx) pf) (auth_table st) = Some existing"
    and "token = decrypt env (p_password cx) (tokenEncrypted existing)" and "token \<noteq> ''''"
    and "gp = or_default (p_gpassword cx) (p_password cx)"
    and "passwordHash existing \<noteq> hash env (p_password cx)
         \<or> prefix22 (p_cardnum cx) \<and> gp \<noteq> decrypt env token (gpasswordEncrypted existing)"
    and "auth env (ctx_user cx) (p_cardnum cx) (p_password cx) gp st = (Inr prof, st')"
    and "db_update env = (\<lambda>crit p table. Inr (db_auth_update crit p table))"
  shows "middleware env cx st =
           (Inr (Body token),
            st'\<lparr>auth_table :=
              db_auth_update (ByCardnumPlatform (p_cardnum cx) pf)
                (SecretsPatch (encrypt env token (p_password cx))
                   (if prefix22 (p_cardnum cx) then encrypt env token gp else '''')
                   (encrypt env (p_password cx) token)
                   (hash env (p_password cx)))
                (auth_table st)\<rparr>)"
proof -
  have tbl: "auth_table st' = auth_table st"
    using assms(10) by (rule auth_accepts_table)
  have "middleware env cx st = refresh env cx gp pf token st"
    using assms(1-9) by (auto simp: middleware_def login_def Let_def)
  then show ?thesis
    using assms(10,11) tbl by (simp add: refresh_def)
qed

text \<open>
  C1. The refresh hands the recomputed fields to \<^verbatim>\<open>db.update\<close>, not to
  \<^verbatim>\<open>db.auth.update\<close> as line 199 does for \<^verbatim>\<open>lastInvoked\<close>. The state holds the
  record of \<open>22012345\<close> on \<open>app\<close> with an older secondary password; the login
  presents the stored password and the new secondary password, both providers accept.
  The outcome is whatever \<^verbatim>\<open>db.update\<close> makes of it: the exception it throws, with the
  record left as it was, or the token with the table it returns. When the database
  module has no function \<^verbatim>\<open>update\<close>, the login throws a TypeError after the
  providers accepted, and the record keeps the old secondary password.
\<close>

theorem refresh_goes_to_db_update:
  "middleware (demo_env upd) (login_request ''22012345'' ''p1'' (Some ''g1'')) stale_state
     = (case upd (ByCardnumPlatform ''22012345'' ''app'')
               (SecretsPatch (''p1#'' @ demo_token) (''g1#'' @ demo_token) (demo_token @ ''#p1'')
                  ''md5:p1'')
               [stale_record] of
          Inl e \<Rightarrow>
            (Inl e,
             \<lparr>auth_table = [stale_record],
              upstream_calls = [GraduateCall ''012345'' ''g1'', PrimaryCall ''22012345'' ''p1'']\<rparr>)
        | Inr table' \<Rightarrow>
            (Inr (Body demo_token),
             \<lparr>auth_table = table',
              upstream_calls = [GraduateCall ''012345'' ''g1'', PrimaryCall ''22012345'' ''p1'']\<rparr>))
   \<and> middleware (demo_env not_a_function) (login_request ''22012345'' ''p1'' (Some ''g1''))
       stale_state
     = (Inl (Failure ''TypeError: db.update is not a function''),
        \<lparr>auth_table = [stale_record],
         upstream_calls = [GraduateCall ''012345'' ''g1'', PrimaryCall ''22012345'' ''p1'']\<rparr>)"
proof -
  let ?cx = "login_request ''22012345'' ''p1'' (Some ''g1'')"
  let ?calls = "[GraduateCall ''012345'' ''g1'', PrimaryCall ''22012345'' ''p1'']"
  have found: "db_auth_find (ByCardnumPlatform ''22012345'' ''app'') (auth_table stale_state)
                 = Some stale_record"
    by (simp add: db_auth_find_def stale_state_def stale_record_def demo_record_def)
  have tok: "decrypt (demo_env upd) ''p1'' (tokenEncrypted stale_record) = demo_token" for upd
    by (simp add: demo_decrypt stale_record_def demo_record_def demo_token_def)
  have gp: "decrypt (demo_env upd) demo_token (gpasswordEncrypted stale_record) = ''g0''" for upd
    by (simp add: demo_decrypt stale_record_def demo_token_def)
  have ph: "passwordHash stale_record = hash (demo_env upd) ''p1''" for upd
    by (simp add: demo_hash stale_record_def demo_record_def)
  have ne: "demo_token \<noteq> ''''"
    by (simp add: demo_token_def)
  have p22: "prefix22 ''22012345''"
    by (simp add: prefix22_def)
  have au: "auth (demo_env upd) None ''22012345'' ''p1'' ''g1'' stale_state
              = (Inr \<lparr>profile_name = ''Li'', profile_schoolnum = ''S1''\<rparr>,
                 \<lparr>auth_table = [stale_record], upstream_calls = ?calls\<rparr>)" for upd
    by (simp add: auth_def auth_try_def graduate_pattern_def is_digit_def demo_providers
        invoke_def stale_state_def)
  have run: "middleware (demo_env upd) ?cx stale_state
               = refresh (demo_env upd) ?cx ''g1'' ''app'' demo_token stale_state" for upd
    using found tok [of upd] gp [of upd] ph [of upd] ne p22
    by (simp add: middleware_def login_def Let_def login_request_ok or_default_def)
  have general: "middleware (demo_env upd) ?cx stale_state
     = (case upd (ByCardnumPlatform ''22012345'' ''app'')
               (SecretsPatch (''p1#'' @ demo_token) (''g1#'' @ demo_token) (demo_token @ ''#p1'')
                  ''md5:p1'')
               [stale_record] of
          Inl e \<Rightarrow> (Inl e, \<lparr>auth_table = [stale_record], upstream_calls = ?calls\<rparr>)
        | Inr table' \<Rightarrow>
            (Inr (Body demo_token), \<lparr>auth_table = table', upstream_calls = ?calls\<rparr>))"
    for upd
    unfolding run
    using au [of upd] p22
    by (simp add: refresh_def login_request_ok demo_providers demo_encrypt demo_hash
        split: sum.splits)
  show ?thesis
    using general [of upd] general [of not_a_function]
    by (simp add: not_a_function_def)
qed

end
